theory Spec2Isabelle
  imports Complex_Main
begin

section \<open>Data model of the certificate store\<close>

text \<open>
  The store of \<^verbatim>\<open>useCertificateStore\<close> keeps four ordered containers (JavaScript arrays)
  and the identifier of the current template. Arrays are lists, \<^verbatim>\<open>string | null\<close> and
  optional properties are options, and every action is a function from the store to
  the store it leaves behind (zustand's \<^verbatim>\<open>set\<close> merges the given keys into the state
  synchronously; \<^verbatim>\<open>get\<close> reads it).
\<close>

datatype FieldType = TextField | DateField | QrcodeField

text \<open>A JavaScript number: a finite one, \<^verbatim>\<open>NaN\<close>, or one of the two infinities.\<close>

datatype number = Finite real | NaN | Infinity | NegInfinity

text \<open>
  Modelled from the spec: the declarations of \<^verbatim>\<open>../types\<close> (Field, Template, Recipient,
  Certificate, CertificateCollection) are not among the sources. The properties are
  those the store and the PDF renderer read and write.
\<close>

record Field =
  fld_id :: string
  fld_name :: string
  fld_type :: FieldType
  fld_x :: number
  fld_y :: number
  fld_fontSize :: "number option"
  fld_fontFamily :: "string option"
  fld_color :: "string option"
  fld_defaultValue :: "string option"

record Template =
  tpl_id :: string
  tpl_name :: string
  tpl_imageUrl :: string
  tpl_fields :: "Field list"

text \<open>\<^verbatim>\<open>Omit<Template, 'id'>\<close>: the payload of \<^verbatim>\<open>updateTemplate\<close>.\<close>

record TemplatePayload =
  tp_name :: string
  tp_imageUrl :: string
  tp_fields :: "Field list"

record Recipient =
  rcp_id :: string
  rcp_name :: string
  rcp_email :: "string option"
  rcp_course :: "string option"
  rcp_customFields :: "(string \<times> string) list option"
  rcp_issueDate :: string

text \<open>\<^verbatim>\<open>Omit<Recipient, 'id'>\<close>: the payload of \<^verbatim>\<open>updateRecipient\<close>.\<close>

record RecipientPayload =
  rp_name :: string
  rp_email :: "string option"
  rp_course :: "string option"
  rp_customFields :: "(string \<times> string) list option"
  rp_issueDate :: string

record Certificate =
  cert_id :: string
  cert_recipientId :: string
  cert_templateId :: string
  cert_qrCodeUrl :: string
  cert_issueDate :: string
  cert_verificationUrl :: string
  cert_status :: string

text \<open>
  \<^verbatim>\<open>Partial<Certificate>\<close>: every property may be missing (\<open>None\<close>), the identifier
  included. A property present with the value \<^verbatim>\<open>undefined\<close> is not modelled.
\<close>

record CertificateUpdates =
  cu_id :: "string option"
  cu_recipientId :: "string option"
  cu_templateId :: "string option"
  cu_qrCodeUrl :: "string option"
  cu_issueDate :: "string option"
  cu_verificationUrl :: "string option"
  cu_status :: "string option"

record CertificateCollection =
  col_id :: string
  col_name :: string
  col_description :: "string option"
  col_templateId :: string
  col_certificates :: "Certificate list"
  col_createdAt :: string

record CertificateStore =
  templates :: "Template list"
  recipients :: "Recipient list"
  certificates :: "Certificate list"
  collections :: "CertificateCollection list"
  currentTemplateId :: "string option"

text \<open>
  \<^verbatim>\<open>x || null\<close> for \<^verbatim>\<open>x : string | undefined\<close>: the empty string is falsy, as
  \<^verbatim>\<open>undefined\<close> is.
\<close>

definition or_null :: "string option \<Rightarrow> string option" where
  "or_null x = (case x of None \<Rightarrow> None | Some v \<Rightarrow> if v = [] then None else Some v)"

section \<open>Template and recipient actions\<close>

text \<open>\<^verbatim>\<open>{ ...template, id }\<close>\<close>

definition template_with_id :: "TemplatePayload \<Rightarrow> string \<Rightarrow> Template" where
  "template_with_id p i =
     \<lparr>tpl_id = i, tpl_name = tp_name p, tpl_imageUrl = tp_imageUrl p, tpl_fields = tp_fields p\<rparr>"

definition updateTemplate :: "string \<Rightarrow> TemplatePayload \<Rightarrow> CertificateStore \<Rightarrow> CertificateStore" where
  "updateTemplate i p s =
     s\<lparr>templates := map (\<lambda>t. if tpl_id t = i then template_with_id p i else t) (templates s)\<rparr>"

definition deleteTemplate :: "string \<Rightarrow> CertificateStore \<Rightarrow> CertificateStore" where
  "deleteTemplate i s =
     s\<lparr>templates := filter (\<lambda>t. tpl_id t \<noteq> i) (templates s),
       currentTemplateId :=
         (if currentTemplateId s = Some i
          then or_null (map_option tpl_id (find (\<lambda>t. tpl_id t \<noteq> i) (templates s)))
          else currentTemplateId s)\<rparr>"

text \<open>\<^verbatim>\<open>{ ...recipient, id }\<close>\<close>

definition recipient_with_id :: "RecipientPayload \<Rightarrow> string \<Rightarrow> Recipient" where
  "recipient_with_id p i =
     \<lparr>rcp_id = i, rcp_name = rp_name p, rcp_email = rp_email p, rcp_course = rp_course p,
      rcp_customFields = rp_customFields p, rcp_issueDate = rp_issueDate p\<rparr>"

definition updateRecipient :: "string \<Rightarrow> RecipientPayload \<Rightarrow> CertificateStore \<Rightarrow> CertificateStore" where
  "updateRecipient i p s =
     s\<lparr>recipients := map (\<lambda>r. if rcp_id r = i then recipient_with_id p i else r) (recipients s)\<rparr>"

definition deleteRecipient :: "string \<Rightarrow> CertificateStore \<Rightarrow> CertificateStore" where
  "deleteRecipient i s =
     s\<lparr>recipients := filter (\<lambda>r. rcp_id r \<noteq> i) (recipients s),
       certificates := filter (\<lambda>c. cert_recipientId c \<noteq> i) (certificates s)\<rparr>"

section \<open>Certificate and collection actions\<close>

text \<open>\<^verbatim>\<open>{ ...c, ...updates }\<close>: a property of \<^verbatim>\<open>updates\<close> wins where it is present.\<close>

definition merge_certificate :: "Certificate \<Rightarrow> CertificateUpdates \<Rightarrow> Certificate" where
  "merge_certificate c u =
     \<lparr>cert_id = (case cu_id u of None \<Rightarrow> cert_id c | Some v \<Rightarrow> v),
      cert_recipientId = (case cu_recipientId u of None \<Rightarrow> cert_recipientId c | Some v \<Rightarrow> v),
      cert_templateId = (case cu_templateId u of None \<Rightarrow> cert_templateId c | Some v \<Rightarrow> v),
      cert_qrCodeUrl = (case cu_qrCodeUrl u of None \<Rightarrow> cert_qrCodeUrl c | Some v \<Rightarrow> v),
      cert_issueDate = (case cu_issueDate u of None \<Rightarrow> cert_issueDate c | Some v \<Rightarrow> v),
      cert_verificationUrl =
        (case cu_verificationUrl u of None \<Rightarrow> cert_verificationUrl c | Some v \<Rightarrow> v),
      cert_status = (case cu_status u of None \<Rightarrow> cert_status c | Some v \<Rightarrow> v)\<rparr>"

definition updateCertificate :: "string \<Rightarrow> CertificateUpdates \<Rightarrow> CertificateStore \<Rightarrow> CertificateStore" where
  "updateCertificate i u s =
     s\<lparr>certificates := map (\<lambda>c. if cert_id c = i then merge_certificate c u else c) (certificates s)\<rparr>"

definition addCertificatesToCollection :: "string \<Rightarrow> string list \<Rightarrow> CertificateStore \<Rightarrow> CertificateStore" where
  "addCertificatesToCollection collectionId certificateIds s =
     (let certificatesToAdd = filter (\<lambda>c. cert_id c \<in> set certificateIds) (certificates s)
      in s\<lparr>collections :=
           map (\<lambda>collection.
                  if col_id collection = collectionId
                  then collection\<lparr>col_certificates :=
                         col_certificates collection @
                         filter (\<lambda>c. \<not> list_ex (\<lambda>existing. cert_id existing = cert_id c)
                                          (col_certificates collection))
                           certificatesToAdd\<rparr>
                  else collection)
               (collections s)\<rparr>)"

section \<open>Issuing certificates\<close>

text \<open>
  What an issuing action reads from outside the store: the identifiers \<^verbatim>\<open>nanoid()\<close>
  returns (by call number within the action), \<^verbatim>\<open>window.location.origin\<close> (\<open>None\<close>
  when there is no \<^verbatim>\<open>window\<close>), and the timestamps \<^verbatim>\<open>new Date().toISOString()\<close>
  gives when the k-th certificate and the k-th database row are built.
\<close>

record IssueEnv =
  env_nanoid :: "nat \<Rightarrow> string"
  env_origin :: "string option"
  env_issueDate :: "nat \<Rightarrow> string"
  env_rowDate :: "nat \<Rightarrow> string"

text \<open>The row sent to the hosted database.\<close>

record DatabaseCertificate =
  db_certificate_code :: string
  db_recipient_name :: string
  db_recipient_email :: string
  db_recipient_id :: "string option"
  db_course_name :: string
  db_template_id :: string
  db_issue_date :: string
  db_qr_code_data :: string
  db_status :: string

text \<open>
  The remote collaborators, as the answers they give: whether \<^verbatim>\<open>insertCertificate\<close>
  resolves, the URL \<^verbatim>\<open>generateAndUploadCertificatePDF\<close> resolves with (\<open>None\<close> when it
  rejects), and whether \<^verbatim>\<open>updateCertificatePDFUrl\<close> resolves.
\<close>

record Remote =
  insertCertificate :: "DatabaseCertificate \<Rightarrow> bool"
  generateAndUploadCertificatePDF :: "string \<Rightarrow> Template \<Rightarrow> Recipient \<Rightarrow> string option"
  updateCertificatePDFUrl :: "string \<Rightarrow> string \<Rightarrow> bool"

text \<open>
  What the asynchronous part of an issuing action does to the outside: the remote calls
  it makes, the errors it logs and the dialogs it opens (\<^verbatim>\<open>console.log\<close> lines are left
  out). None of its callbacks calls \<^verbatim>\<open>set\<close>.
\<close>

datatype Event =
    DbInsert DatabaseCertificate
  | PdfUpload string
  | DbUpdatePdfUrl string string
  | ErrorSavingCertificate string
  | ErrorUploadingPdf string
  | MissingRecipientOrTemplate string
  | AlertNotSaved
  | AlertSummary nat nat

definition baseUrl :: "IssueEnv \<Rightarrow> string" where
  "baseUrl env = (case env_origin env of None \<Rightarrow> [] | Some origin \<Rightarrow> origin)"

definition newCertificate :: "IssueEnv \<Rightarrow> nat \<Rightarrow> string \<Rightarrow> string \<Rightarrow> Certificate" where
  "newCertificate env k recipientId templateId =
     (let i = env_nanoid env k;
          verificationUrl = baseUrl env @ ''/verify/'' @ i
      in \<lparr>cert_id = i, cert_recipientId = recipientId, cert_templateId = templateId,
          cert_qrCodeUrl = verificationUrl, cert_issueDate = env_issueDate env k,
          cert_verificationUrl = verificationUrl, cert_status = ''published''\<rparr>)"

definition dbCertificate ::
  "IssueEnv \<Rightarrow> nat \<Rightarrow> Certificate \<Rightarrow> string \<Rightarrow> Recipient \<Rightarrow> Template \<Rightarrow> DatabaseCertificate" where
  "dbCertificate env k cert templateId recipient template =
     \<lparr>db_certificate_code = cert_id cert,
      db_recipient_name = rcp_name recipient,
      db_recipient_email = (case rcp_email recipient of None \<Rightarrow> [] | Some e \<Rightarrow> e),
      db_recipient_id =
        or_null (case rcp_customFields recipient of None \<Rightarrow> None
                 | Some cf \<Rightarrow> map_of cf ''studentId''),
      db_course_name =
        (case or_null (rcp_course recipient) of None \<Rightarrow> tpl_name template | Some c \<Rightarrow> c),
      db_template_id = templateId,
      db_issue_date = takeWhile (\<lambda>c. c \<noteq> CHR ''T'') (env_rowDate env k),
      db_qr_code_data = cert_verificationUrl cert,
      db_status = ''active''\<rparr>"

text \<open>
  The PDF step after a successful insert: its own \<^verbatim>\<open>try/catch\<close> logs a failure of the
  upload or of the second database update and lets nothing escape.
\<close>

definition pdf_step :: "Remote \<Rightarrow> string \<Rightarrow> Template \<Rightarrow> Recipient \<Rightarrow> Event list" where
  "pdf_step remote i template recipient =
     PdfUpload i #
     (case generateAndUploadCertificatePDF remote i template recipient of
        None \<Rightarrow> [ErrorUploadingPdf i]
      | Some pdfUrl \<Rightarrow>
          DbUpdatePdfUrl i pdfUrl #
          (if updateCertificatePDFUrl remote i pdfUrl then [] else [ErrorUploadingPdf i]))"

record IssueResult =
  returned_id :: string
  store_after :: CertificateStore
  side_effects :: "Event list"

definition generateCertificate :: "IssueEnv \<Rightarrow> Remote \<Rightarrow> string \<Rightarrow> string \<Rightarrow> CertificateStore \<Rightarrow> IssueResult" where
  "generateCertificate env remote recipientId templateId s =
     (let certificate = newCertificate env 0 recipientId templateId;
          s' = s\<lparr>certificates := certificates s @ [certificate]\<rparr>;
          recipient = find (\<lambda>r. rcp_id r = recipientId) (recipients s');
          template = find (\<lambda>t. tpl_id t = templateId) (templates s')
      in \<lparr>returned_id = cert_id certificate,
          store_after = s',
          side_effects =
            (case (recipient, template) of
               (Some r, Some t) \<Rightarrow>
                 (let row = dbCertificate env 0 certificate templateId r t
                  in DbInsert row #
                     (if insertCertificate remote row then pdf_step remote (cert_id certificate) t r
                      else [ErrorSavingCertificate (cert_id certificate), AlertNotSaved]))
             | _ \<Rightarrow> [MissingRecipientOrTemplate (cert_id certificate)])\<rparr>)"

subsection \<open>Bulk issuing\<close>

text \<open>
  \<^verbatim>\<open>processCertificate\<close> for one certificate. An \<^verbatim>\<open>async\<close> function runs without
  interruption up to its first \<^verbatim>\<open>await\<close>: the events up to there (the call of
  \<^verbatim>\<open>insertCertificate\<close>, or the error logged when the recipient or the template is
  missing) are its request; the events after the insert has settled are its
  continuation. The last two components are what it adds to \<^verbatim>\<open>savedCount\<close> and
  \<^verbatim>\<open>errorCount\<close>. It reads the recipients and the template fetched before the new
  certificates were appended.
\<close>

record Pipeline =
  pl_request :: "Event list"
  pl_continuation :: "Event list"
  pl_saved :: nat
  pl_errors :: nat

definition processCertificate ::
  "IssueEnv \<Rightarrow> Remote \<Rightarrow> Recipient list \<Rightarrow> Template option \<Rightarrow> string \<Rightarrow> nat \<times> Certificate \<Rightarrow>
   Pipeline" where
  "processCertificate env remote rs template templateId kc =
     (let k = fst kc; cert = snd kc
      in case (find (\<lambda>r. rcp_id r = cert_recipientId cert) rs, template) of
           (Some r, Some t) \<Rightarrow>
             (let row = dbCertificate env k cert templateId r t
              in if insertCertificate remote row
                 then \<lparr>pl_request = [DbInsert row],
                       pl_continuation = pdf_step remote (cert_id cert) t r,
                       pl_saved = 1, pl_errors = 0\<rparr>
                 else \<lparr>pl_request = [DbInsert row],
                       pl_continuation = [ErrorSavingCertificate (cert_id cert)],
                       pl_saved = 0, pl_errors = 1\<rparr>)
         | _ \<Rightarrow> \<lparr>pl_request = [MissingRecipientOrTemplate (cert_id cert)],
                 pl_continuation = [], pl_saved = 0, pl_errors = 0\<rparr>)"

definition batchSize :: nat where
  "batchSize = 3"

text \<open>
  \<^verbatim>\<open>for (let i = 0; i < n; i += batchSize) { batch = slice(i, i + batchSize); await ... }\<close>:
  the batches in the order the loop awaits them.
\<close>

function batches_from :: "nat \<Rightarrow> 'a list \<Rightarrow> 'a list list" where
  "batches_from i xs =
     (if i < length xs then take batchSize (drop i xs) # batches_from (i + batchSize) xs else [])"
  by pat_completeness auto
termination
  by (relation "measure (\<lambda>(i, xs). length xs - i)") (auto simp: batchSize_def)

declare batches_from.simps [simp del]

text \<open>
  One awaited batch (\<^verbatim>\<open>await Promise.all(batch.map(cert => processCertificate(cert)))\<close>):
  the certificates it holds, the requests of their pipelines in array order (\<^verbatim>\<open>map\<close>
  calls the pipelines one after the other, each running up to its first \<^verbatim>\<open>await\<close>), the
  continuation of each pipeline, and the sums it adds to the two counters.
\<close>

record Round =
  round_batch :: "Certificate list"
  round_requests :: "Event list"
  round_continuations :: "Event list list"
  round_saved :: nat
  round_errors :: nat

definition processBatch ::
  "IssueEnv \<Rightarrow> Remote \<Rightarrow> Recipient list \<Rightarrow> Template option \<Rightarrow> string \<Rightarrow> (nat \<times> Certificate) list \<Rightarrow>
   Round" where
  "processBatch env remote rs template templateId batch =
     (let results = map (processCertificate env remote rs template templateId) batch
      in \<lparr>round_batch = map snd batch,
          round_requests = concat (map pl_request results),
          round_continuations = map pl_continuation results,
          round_saved = sum_list (map pl_saved results),
          round_errors = sum_list (map pl_errors results)\<rparr>)"

record BulkResult =
  returned_ids :: "string list"
  bulk_store_after :: CertificateStore
  rounds :: "Round list"
  summary :: "Event list"

definition generateBulkCertificates ::
  "IssueEnv \<Rightarrow> Remote \<Rightarrow> string list \<Rightarrow> string \<Rightarrow> CertificateStore \<Rightarrow> BulkResult" where
  "generateBulkCertificates env remote recipientIds templateId s =
     (let template = find (\<lambda>t. tpl_id t = templateId) (templates s);
          newCertificates =
            map (\<lambda>(k, recipientId). newCertificate env k recipientId templateId)
              (enumerate 0 recipientIds);
          s' = s\<lparr>certificates := certificates s @ newCertificates\<rparr>;
          rs = map (processBatch env remote (recipients s) template templateId)
                 (batches_from 0 (enumerate 0 newCertificates));
          savedCount = sum_list (map round_saved rs);
          errorCount = sum_list (map round_errors rs)
      in \<lparr>returned_ids = map cert_id newCertificates,
          bulk_store_after = s',
          rounds = rs,
          summary = (if errorCount > 0 then [AlertSummary savedCount errorCount] else [])\<rparr>)"

subsection \<open>The order of the asynchronous events\<close>

text \<open>
  The continuations of one batch run concurrently: any interleaving that keeps the order
  inside each continuation can happen.
\<close>

fun interleavings :: "'a list list \<Rightarrow> 'a list set" where
  "interleavings [] = {[]}"
| "interleavings (xs # xss) = (\<Union>ys \<in> interleavings xss. shuffles xs ys)"

text \<open>
  What one awaited batch can do, in order: its requests, then its continuations
  interleaved. \<^verbatim>\<open>Promise.all\<close> resolves when every pipeline has finished.
\<close>

definition round_traces :: "Round \<Rightarrow> Event list set" where
  "round_traces r = (\<lambda>t. round_requests r @ t) ` interleavings (round_continuations r)"

text \<open>Steps awaited one after the other: a trace of each, in turn.\<close>

fun in_turn :: "'a list set list \<Rightarrow> 'a list set" where
  "in_turn [] = {[]}"
| "in_turn (T # Ts) = (\<lambda>(t, u). t @ u) ` (T \<times> in_turn Ts)"

text \<open>
  What the asynchronous part of \<^verbatim>\<open>generateBulkCertificates\<close> can do, in order: the loop
  awaits each batch before it slices the next, and the summary follows the loop.
\<close>

definition bulk_traces :: "BulkResult \<Rightarrow> Event list set" where
  "bulk_traces r = (\<lambda>t. t @ summary r) ` in_turn (map round_traces (rounds r))"

text \<open>
  Reading a trace: the certificate an event is about, the certificate whose processing
  an event starts (the call of \<^verbatim>\<open>insertCertificate\<close>, or the error logged for a missing
  recipient or template), and the certificate a call of \<^verbatim>\<open>insertCertificate\<close> sends.
\<close>

fun event_certificate :: "Event \<Rightarrow> string option" where
  "event_certificate (DbInsert row) = Some (db_certificate_code row)"
| "event_certificate (PdfUpload i) = Some i"
| "event_certificate (DbUpdatePdfUrl i u) = Some i"
| "event_certificate (ErrorSavingCertificate i) = Some i"
| "event_certificate (ErrorUploadingPdf i) = Some i"
| "event_certificate (MissingRecipientOrTemplate i) = Some i"
| "event_certificate AlertNotSaved = None"
| "event_certificate (AlertSummary saved failed) = None"

fun start_certificate :: "Event \<Rightarrow> string option" where
  "start_certificate (DbInsert row) = Some (db_certificate_code row)"
| "start_certificate (MissingRecipientOrTemplate i) = Some i"
| "start_certificate e = None"

fun insert_certificate :: "Event \<Rightarrow> string option" where
  "insert_certificate (DbInsert row) = Some (db_certificate_code row)"
| "insert_certificate e = None"

definition mentioned :: "Event list \<Rightarrow> string list" where
  "mentioned t = List.map_filter event_certificate t"

definition started :: "Event list \<Rightarrow> string list" where
  "started t = List.map_filter start_certificate t"

definition inserted :: "Event list \<Rightarrow> string list" where
  "inserted t = List.map_filter insert_certificate t"

section \<open>Uploading a certificate PDF\<close>

text \<open>
  One \<^verbatim>\<open>fetch\<close> with the read of its body: it is rejected (a network error, or a body that
  cannot be read), or it gives a response with a status and a body. \<^verbatim>\<open>response.ok\<close> is a
  status from 200 to 299. The answers are given by attempt number, verb and URL; the PDF
  bytes travel as the body of each request and decide nothing.
\<close>

datatype Verb = POST | PUT

datatype Exchange = Rejected string | Response nat string

datatype UploadError =
    UploadFailed string
  | UpdateFailed string
  | FetchFailed string
  | RetriesExhausted nat UploadError
  | UnexpectedError

datatype UploadEvent = Request Verb string | Sleep nat

record UploadEnv =
  supabaseUrl :: string
  fetch :: "nat \<Rightarrow> Verb \<Rightarrow> string \<Rightarrow> Exchange"

definition BUCKET_NAME :: string where
  "BUCKET_NAME = ''certificates''"

definition MAX_RETRIES :: nat where
  "MAX_RETRIES = 3"

definition RETRY_DELAY :: nat where
  "RETRY_DELAY = 1000"

definition response_ok :: "nat \<Rightarrow> bool" where
  "response_ok st = (200 \<le> st \<and> st \<le> 299)"

definition objectUrl :: "UploadEnv \<Rightarrow> string \<Rightarrow> string" where
  "objectUrl env certificateCode =
     supabaseUrl env @ ''/storage/v1/object/'' @ BUCKET_NAME @ ''/'' @ certificateCode @ ''.pdf''"

definition publicUrl :: "UploadEnv \<Rightarrow> string \<Rightarrow> string" where
  "publicUrl env certificateCode =
     supabaseUrl env @ ''/storage/v1/object/public/'' @ BUCKET_NAME @ ''/'' @ certificateCode @ ''.pdf''"

text \<open>The body of the \<^verbatim>\<open>try\<close> block of one attempt.\<close>

definition upload_attempt :: "UploadEnv \<Rightarrow> string \<Rightarrow> nat \<Rightarrow> (UploadError + string) \<times> UploadEvent list" where
  "upload_attempt env certificateCode attempt =
     (let url = objectUrl env certificateCode
      in case fetch env attempt POST url of
           Rejected e \<Rightarrow> (Inl (FetchFailed e), [Request POST url])
         | Response st errorText \<Rightarrow>
             if response_ok st then (Inr (publicUrl env certificateCode), [Request POST url])
             else if st = 409 then
               (case fetch env attempt PUT url of
                  Rejected e \<Rightarrow> (Inl (FetchFailed e), [Request POST url, Request PUT url])
                | Response st' updateText \<Rightarrow>
                    if response_ok st'
                    then (Inr (publicUrl env certificateCode), [Request POST url, Request PUT url])
                    else (Inl (UpdateFailed updateText), [Request POST url, Request PUT url]))
             else (Inl (UploadFailed errorText), [Request POST url]))"

function upload_loop :: "UploadEnv \<Rightarrow> string \<Rightarrow> nat \<Rightarrow> (UploadError + string) \<times> UploadEvent list" where
  "upload_loop env certificateCode attempt =
     (if attempt \<le> MAX_RETRIES then
        (case upload_attempt env certificateCode attempt of
           (Inr url, evs) \<Rightarrow> (Inr url, evs)
         | (Inl err, evs) \<Rightarrow>
             if attempt = MAX_RETRIES then (Inl (RetriesExhausted MAX_RETRIES err), evs)
             else (let rest = upload_loop env certificateCode (attempt + 1)
                   in (fst rest, evs @ [Sleep (RETRY_DELAY * attempt)] @ snd rest)))
      else (Inl UnexpectedError, []))"
  by pat_completeness auto
termination
  by (relation "measure (\<lambda>(env, c, attempt). MAX_RETRIES + 1 - attempt)") auto

declare upload_loop.simps [simp del]

definition uploadCertificatePDF :: "UploadEnv \<Rightarrow> string \<Rightarrow> (UploadError + string) \<times> UploadEvent list" where
  "uploadCertificatePDF env certificateCode = upload_loop env certificateCode 1"

section \<open>Export and import\<close>

text \<open>
  \<^verbatim>\<open>importData\<close> stores whatever \<^verbatim>\<open>JSON.parse\<close> returned without looking at its shape,
  so export and import are modelled on JavaScript values: \<^verbatim>\<open>null\<close>, booleans, numbers,
  strings, arrays and objects, an object being the list of its own properties (the
  first binding of a key counts). \<open>None\<close> is \<^verbatim>\<open>undefined\<close> where a property is read.
\<close>

datatype json =
    JNull
  | JBool bool
  | JNum number
  | JStr string
  | JArr "json list"
  | JObj "(string \<times> json) list"

definition truthy :: "json \<Rightarrow> bool" where
  "truthy v =
     (case v of JNull \<Rightarrow> False | JBool b \<Rightarrow> b | JNum n \<Rightarrow> n \<noteq> Finite 0 \<and> n \<noteq> NaN
      | JStr s \<Rightarrow> s \<noteq> []
      | JArr _ \<Rightarrow> True | JObj _ \<Rightarrow> True)"

text \<open>
  \<^verbatim>\<open>v.key\<close> for a value that is not \<^verbatim>\<open>null\<close> and one of the keys read here
  (\<^verbatim>\<open>templates\<close>, \<^verbatim>\<open>recipients\<close>, \<^verbatim>\<open>certificates\<close>, \<^verbatim>\<open>collections\<close>, \<^verbatim>\<open>id\<close>): only an
  object can have it.
\<close>

definition js_prop :: "json \<Rightarrow> string \<Rightarrow> json option" where
  "js_prop v key = (case v of JObj kvs \<Rightarrow> map_of kvs key | _ \<Rightarrow> None)"

text \<open>\<^verbatim>\<open>v[0]\<close> for a value that is not \<^verbatim>\<open>null\<close>.\<close>

definition js_first :: "json \<Rightarrow> json option" where
  "js_first v =
     (case v of
        JArr xs \<Rightarrow> (case xs of [] \<Rightarrow> None | x # _ \<Rightarrow> Some x)
      | JStr s \<Rightarrow> (case s of [] \<Rightarrow> None | c # _ \<Rightarrow> Some (JStr [c]))
      | JObj kvs \<Rightarrow> map_of kvs ''0''
      | _ \<Rightarrow> None)"

text \<open>\<^verbatim>\<open>x || []\<close>\<close>

definition or_empty :: "json option \<Rightarrow> json" where
  "or_empty x = (case x of None \<Rightarrow> JArr [] | Some v \<Rightarrow> if truthy v then v else JArr [])"

text \<open>\<^verbatim>\<open>data.templates?.[0]?.id || null\<close>\<close>

definition first_template_id :: "json \<Rightarrow> json" where
  "first_template_id data =
     (case js_prop data ''templates'' of
        None \<Rightarrow> JNull
      | Some ts \<Rightarrow>
          if ts = JNull then JNull
          else (case js_first ts of
                  None \<Rightarrow> JNull
                | Some t \<Rightarrow>
                    if t = JNull then JNull
                    else (case js_prop t ''id'' of
                            None \<Rightarrow> JNull
                          | Some i \<Rightarrow> if truthy i then i else JNull)))"

record JsStore =
  js_templates :: json
  js_recipients :: json
  js_certificates :: json
  js_collections :: json
  js_currentTemplateId :: json

text \<open>
  \<^verbatim>\<open>JSON.stringify\<close> and \<^verbatim>\<open>JSON.parse\<close> belong to the language, not to the repository:
  \<^verbatim>\<open>exportData\<close> and \<^verbatim>\<open>importData\<close> take them as parameters. \<open>parse\<close> gives \<open>None\<close> where
  \<^verbatim>\<open>JSON.parse\<close> throws. The text is a string in the source; its type is left open here.
\<close>

definition export_object :: "JsStore \<Rightarrow> json" where
  "export_object s =
     JObj [(''templates'', js_templates s), (''recipients'', js_recipients s),
           (''certificates'', js_certificates s), (''collections'', js_collections s)]"

definition exportData :: "(json \<Rightarrow> 't) \<Rightarrow> JsStore \<Rightarrow> 't" where
  "exportData stringify s = stringify (export_object s)"

text \<open>
  The \<^verbatim>\<open>try\<close> block of \<^verbatim>\<open>importData\<close>: a failed parse, and the read of a property of
  \<^verbatim>\<open>null\<close>, throw before \<^verbatim>\<open>set\<close> is called, and the \<^verbatim>\<open>catch\<close> only logs.
\<close>

definition importData :: "('t \<Rightarrow> json option) \<Rightarrow> 't \<Rightarrow> JsStore \<Rightarrow> JsStore" where
  "importData parse jsonData s =
     (case parse jsonData of
        None \<Rightarrow> s
      | Some data \<Rightarrow>
          if data = JNull then s
          else \<lparr>js_templates = or_empty (js_prop data ''templates''),
                js_recipients = or_empty (js_prop data ''recipients''),
                js_certificates = or_empty (js_prop data ''certificates''),
                js_collections = or_empty (js_prop data ''collections''),
                js_currentTemplateId = first_template_id data\<rparr>)"

subsection \<open>The two built-ins\<close>

text \<open>
  Modelled from the spec: the export format is a JSON document (section 6), written by
  \<^verbatim>\<open>JSON.stringify\<close> and read by \<^verbatim>\<open>JSON.parse\<close>, which are built-ins of the language and
  not code of the repository. \<^verbatim>\<open>JSON.stringify\<close> writes \<^verbatim>\<open>null\<close> for a number that is not
  finite, wherever it stands, and writes every other value of the model as it is.
\<close>

primrec stringified :: "json \<Rightarrow> json" where
  "stringified JNull = JNull"
| "stringified (JBool b) = JBool b"
| "stringified (JNum n) = (case n of Finite x \<Rightarrow> JNum (Finite x) | _ \<Rightarrow> JNull)"
| "stringified (JStr s) = JStr s"
| "stringified (JArr xs) = JArr (map stringified xs)"
| "stringified (JObj kvs) = JObj (map (map_prod id stringified) kvs)"

text \<open>
  A JSON text is taken for the value it denotes; white space, and so the indentation
  that \<^verbatim>\<open>JSON.stringify(value, null, 2)\<close> adds, is not modelled. A text denotes only
  values that JSON has: \<^verbatim>\<open>JSON.parse\<close> throws on any other.
\<close>

datatype json_text = Text json

definition JSON_stringify :: "json \<Rightarrow> json_text" where
  "JSON_stringify v = Text (stringified v)"

definition JSON_parse :: "json_text \<Rightarrow> json option" where
  "JSON_parse t = (case t of Text v \<Rightarrow> if stringified v = v then Some v else None)"

subsection \<open>The typed store as JavaScript values\<close>

definition optional :: "string \<Rightarrow> json option \<Rightarrow> (string \<times> json) list" where
  "optional key v = (case v of None \<Rightarrow> [] | Some x \<Rightarrow> [(key, x)])"

definition FieldType_json :: "FieldType \<Rightarrow> json" where
  "FieldType_json t =
     (case t of TextField \<Rightarrow> JStr ''text'' | DateField \<Rightarrow> JStr ''date'' | QrcodeField \<Rightarrow> JStr ''qrcode'')"

definition Field_json :: "Field \<Rightarrow> json" where
  "Field_json f =
     JObj ([(''id'', JStr (fld_id f)), (''name'', JStr (fld_name f)),
            (''type'', FieldType_json (fld_type f)),
            (''x'', JNum (fld_x f)), (''y'', JNum (fld_y f))]
           @ optional ''fontSize'' (map_option JNum (fld_fontSize f))
           @ optional ''fontFamily'' (map_option JStr (fld_fontFamily f))
           @ optional ''color'' (map_option JStr (fld_color f))
           @ optional ''defaultValue'' (map_option JStr (fld_defaultValue f)))"

definition Template_json :: "Template \<Rightarrow> json" where
  "Template_json t =
     JObj [(''id'', JStr (tpl_id t)), (''name'', JStr (tpl_name t)),
           (''imageUrl'', JStr (tpl_imageUrl t)),
           (''fields'', JArr (map Field_json (tpl_fields t)))]"

definition Recipient_json :: "Recipient \<Rightarrow> json" where
  "Recipient_json r =
     JObj ([(''id'', JStr (rcp_id r)), (''name'', JStr (rcp_name r))]
           @ optional ''email'' (map_option JStr (rcp_email r))
           @ optional ''course'' (map_option JStr (rcp_course r))
           @ optional ''customFields''
               (map_option (\<lambda>cf. JObj (map (\<lambda>(k, v). (k, JStr v)) cf)) (rcp_customFields r))
           @ [(''issueDate'', JStr (rcp_issueDate r))])"

definition Certificate_json :: "Certificate \<Rightarrow> json" where
  "Certificate_json c =
     JObj [(''id'', JStr (cert_id c)), (''recipientId'', JStr (cert_recipientId c)),
           (''templateId'', JStr (cert_templateId c)), (''qrCodeUrl'', JStr (cert_qrCodeUrl c)),
           (''issueDate'', JStr (cert_issueDate c)),
           (''verificationUrl'', JStr (cert_verificationUrl c)),
           (''status'', JStr (cert_status c))]"

definition Collection_json :: "CertificateCollection \<Rightarrow> json" where
  "Collection_json c =
     JObj ([(''id'', JStr (col_id c)), (''name'', JStr (col_name c))]
           @ optional ''description'' (map_option JStr (col_description c))
           @ [(''templateId'', JStr (col_templateId c)),
              (''certificates'', JArr (map Certificate_json (col_certificates c))),
              (''createdAt'', JStr (col_createdAt c))])"

definition js_store :: "CertificateStore \<Rightarrow> JsStore" where
  "js_store s =
     \<lparr>js_templates = JArr (map Template_json (templates s)),
      js_recipients = JArr (map Recipient_json (recipients s)),
      js_certificates = JArr (map Certificate_json (certificates s)),
      js_collections = JArr (map Collection_json (collections s)),
      js_currentTemplateId = (case currentTemplateId s of None \<Rightarrow> JNull | Some i \<Rightarrow> JStr i)\<rparr>"

text \<open>A store whose template fields hold only finite numbers.\<close>

definition finite_number :: "number \<Rightarrow> bool" where
  "finite_number n = (case n of Finite x \<Rightarrow> True | _ \<Rightarrow> False)"

definition finite_field :: "Field \<Rightarrow> bool" where
  "finite_field f =
     (finite_number (fld_x f) \<and> finite_number (fld_y f)
      \<and> (case fld_fontSize f of None \<Rightarrow> True | Some n \<Rightarrow> finite_number n))"

definition finite_numbers :: "CertificateStore \<Rightarrow> bool" where
  "finite_numbers s = list_all (\<lambda>t. list_all finite_field (tpl_fields t)) (templates s)"

text \<open>The store \<^verbatim>\<open>clearAllData\<close> leaves: the empty store.\<close>

definition clearAllData :: "CertificateStore \<Rightarrow> CertificateStore" where
  "clearAllData s =
     \<lparr>templates = [], recipients = [], certificates = [], collections = [],
      currentTemplateId = None\<rparr>"

section \<open>Example values\<close>

definition template_t1 :: Template where
  "template_t1 =
     \<lparr>tpl_id = ''t1'', tpl_name = ''Curso'', tpl_imageUrl = ''/assets/t1.jpg'', tpl_fields = []\<rparr>"

definition template_unnamed :: Template where
  "template_unnamed =
     \<lparr>tpl_id = [], tpl_name = ''Otro'', tpl_imageUrl = ''/assets/otro.jpg'', tpl_fields = []\<rparr>"

definition recipient_ana :: Recipient where
  "recipient_ana =
     \<lparr>rcp_id = ''r1'', rcp_name = ''Ana'', rcp_email = None, rcp_course = None,
      rcp_customFields = None, rcp_issueDate = ''2025-10-27''\<rparr>"

definition certificate_c1 :: Certificate where
  "certificate_c1 =
     \<lparr>cert_id = ''c1'', cert_recipientId = ''r1'', cert_templateId = ''t1'',
      cert_qrCodeUrl = ''https://x.test/verify/c1'', cert_issueDate = ''2025-10-27T13:28:47.000Z'',
      cert_verificationUrl = ''https://x.test/verify/c1'', cert_status = ''published''\<rparr>"

definition certificate_c2 :: Certificate where
  "certificate_c2 =
     \<lparr>cert_id = ''c2'', cert_recipientId = ''r2'', cert_templateId = ''t1'',
      cert_qrCodeUrl = ''https://x.test/verify/c2'', cert_issueDate = ''2025-10-27T13:28:56.000Z'',
      cert_verificationUrl = ''https://x.test/verify/c2'', cert_status = ''published''\<rparr>"

definition collection_k1 :: CertificateCollection where
  "collection_k1 =
     \<lparr>col_id = ''k1'', col_name = ''Octubre'', col_description = None, col_templateId = ''t1'',
      col_certificates = [certificate_c1], col_createdAt = ''2025-10-27T13:30:00.000Z''\<rparr>"

definition example_store :: CertificateStore where
  "example_store =
     \<lparr>templates = [template_t1], recipients = [recipient_ana],
      certificates = [certificate_c1, certificate_c2], collections = [collection_k1],
      currentTemplateId = Some ''t1''\<rparr>"

text \<open>A store a crafted import can leave: its second template has the empty identifier.\<close>

definition store_with_empty_id :: CertificateStore where
  "store_with_empty_id =
     \<lparr>templates = [template_t1, template_unnamed], recipients = [], certificates = [],
      collections = [], currentTemplateId = Some ''t1''\<rparr>"

definition payload_new :: TemplatePayload where
  "payload_new = \<lparr>tp_name = ''Nuevo'', tp_imageUrl = ''/assets/nuevo.jpg'', tp_fields = []\<rparr>"

definition payload_eva :: RecipientPayload where
  "payload_eva =
     \<lparr>rp_name = ''Eva'', rp_email = Some ''eva@x.test'', rp_course = None,
      rp_customFields = None, rp_issueDate = ''2025-11-01''\<rparr>"

definition updates_revoked :: CertificateUpdates where
  "updates_revoked =
     \<lparr>cu_id = None, cu_recipientId = None, cu_templateId = None, cu_qrCodeUrl = None,
      cu_issueDate = None, cu_verificationUrl = None, cu_status = Some ''draft''\<rparr>"

definition env_x_test :: IssueEnv where
  "env_x_test =
     \<lparr>env_nanoid = (\<lambda>k. [''n0'', ''n1'', ''n2'', ''n3'', ''n4'', ''n5'', ''n6''] ! k),
      env_origin = Some ''https://x.test'',
      env_issueDate = (\<lambda>k. ''2025-10-27T13:28:47.000Z''),
      env_rowDate = (\<lambda>k. ''2025-10-27T13:28:56.000Z'')\<rparr>"

definition remote_down :: Remote where
  "remote_down =
     \<lparr>insertCertificate = (\<lambda>row. False),
      generateAndUploadCertificatePDF = (\<lambda>i t r. None),
      updateCertificatePDFUrl = (\<lambda>i u. False)\<rparr>"

definition seven_recipients :: "string list" where
  "seven_recipients = [''r1'', ''r2'', ''r3'', ''r4'', ''r5'', ''r6'', ''r7'']"

definition env_failing_until :: "nat \<Rightarrow> UploadEnv" where
  "env_failing_until n =
     \<lparr>supabaseUrl = ''https://p.supabase.co'',
      fetch = (\<lambda>attempt verb url.
                 if attempt < n then Response 500 ''Internal Server Error''
                 else if verb = POST then Response 409 ''Duplicate''
                 else Response 200 ''{}'')\<rparr>"

text \<open>
  The default template \<^verbatim>\<open>datos-abiertos\<close> of the source, in a store with one recipient, one
  certificate and one collection.
\<close>

definition field_recipient :: Field where
  "field_recipient =
     \<lparr>fld_id = ''f1'', fld_name = ''recipient'', fld_type = TextField,
      fld_x = Finite 30, fld_y = Finite 40, fld_fontSize = Some (Finite 28),
      fld_fontFamily = Some ''Sora, sans-serif'', fld_color = Some ''#1a365d'',
      fld_defaultValue = None\<rparr>"

definition template_datos :: Template where
  "template_datos =
     \<lparr>tpl_id = ''datos-abiertos'', tpl_name = ''Certificado de Datos Abiertos'',
      tpl_imageUrl = ''/assets/certificate-templates/datos-abiertos.jpg'',
      tpl_fields = [field_recipient]\<rparr>"

definition store_datos :: CertificateStore where
  "store_datos =
     \<lparr>templates = [template_datos], recipients = [recipient_ana],
      certificates = [certificate_c1], collections = [collection_k1],
      currentTemplateId = Some ''datos-abiertos''\<rparr>"

text \<open>
  A store whose first template has the empty identifier and a field whose horizontal
  position is \<^verbatim>\<open>NaN\<close>.
\<close>

definition field_nan :: Field where
  "field_nan = field_recipient\<lparr>fld_x := NaN\<rparr>"

definition template_broken :: Template where
  "template_broken =
     \<lparr>tpl_id = [], tpl_name = ''Otro'', tpl_imageUrl = ''/assets/otro.jpg'',
      tpl_fields = [field_nan]\<rparr>"

definition store_broken_first :: CertificateStore where
  "store_broken_first =
     \<lparr>templates = [template_broken, template_t1], recipients = [], certificates = [],
      collections = [], currentTemplateId = None\<rparr>"

text \<open>
  Example answers of \<^verbatim>\<open>JSON.parse\<close> on strings: the text of the snapshot of the store
  \<open>s\<close> is named, not spelled out; \<^verbatim>\<open>null\<close> and \<^verbatim>\<open>{}\<close> parse to the values they denote,
  and every other text is taken as malformed.
\<close>

definition parse_of :: "CertificateStore \<Rightarrow> string \<Rightarrow> json option" where
  "parse_of s t =
     (if t = ''snapshot'' then Some (export_object (js_store s))
      else if t = ''null'' then Some JNull
      else if t = ''{}'' then Some (JObj [])
      else None)"

text \<open>
  With \<open>example_store\<close>, \<open>seven_recipients\<close> and the remote side down: only the first
  recipient is in the store, its insert fails, and the others are reported missing.
\<close>

definition row_n0 :: DatabaseCertificate where
  "row_n0 =
     dbCertificate env_x_test 0 (newCertificate env_x_test 0 ''r1'' ''t1'') ''t1''
       recipient_ana template_t1"

definition trace_down :: "Event list" where
  "trace_down =
     [DbInsert row_n0, MissingRecipientOrTemplate ''n1'', MissingRecipientOrTemplate ''n2'',
      ErrorSavingCertificate ''n0'',
      MissingRecipientOrTemplate ''n3'', MissingRecipientOrTemplate ''n4'',
      MissingRecipientOrTemplate ''n5'',
      MissingRecipientOrTemplate ''n6'',
      AlertSummary 0 1]"

section \<open>Shared lemmas\<close>

lemma find_filter: "find P xs = (case filter P xs of [] \<Rightarrow> None | x # _ \<Rightarrow> Some x)"
  by (induction xs) auto

lemma map_unchanged: "(\<And>x. x \<in> set xs \<Longrightarrow> f x = x) \<Longrightarrow> map f xs = xs"
  by (induction xs) auto

section \<open>Deleting a recipient\<close>

text \<open>
  C4. \<^verbatim>\<open>deleteRecipient(id)\<close> removes from the certificates every certificate whose
  \<^verbatim>\<open>recipientId\<close> is \<open>id\<close> and no other (the rest keep their order), removes from the
  recipients exactly those whose identifier is \<open>id\<close>, and leaves the templates, the
  collections and the current template as they were.
\<close>

theorem deleteRecipient_cascade:
  "certificates (deleteRecipient i s) = filter (\<lambda>c. cert_recipientId c \<noteq> i) (certificates s)
   \<and> set (certificates (deleteRecipient i s)) = set (certificates s) - {c. cert_recipientId c = i}
   \<and> recipients (deleteRecipient i s) = filter (\<lambda>r. rcp_id r \<noteq> i) (recipients s)
   \<and> set (recipients (deleteRecipient i s)) = set (recipients s) - {r. rcp_id r = i}
   \<and> templates (deleteRecipient i s) = templates s
   \<and> collections (deleteRecipient i s) = collections s
   \<and> currentTemplateId (deleteRecipient i s) = currentTemplateId s"
  by (auto simp: deleteRecipient_def)

section \<open>Deleting a template\<close>

text \<open>
  C10, as the code has it. \<^verbatim>\<open>deleteTemplate(id)\<close> removes every template whose identifier
  is \<open>id\<close> and leaves recipients, certificates and collections alone. When the current
  template is \<open>id\<close>, the current template becomes the identifier of the first remaining
  template if that identifier is a non-empty string, and \<^verbatim>\<open>null\<close> otherwise (no template
  remains, or the first one's identifier is the empty string, which \<^verbatim>\<open>|| null\<close> takes
  for missing); when it is not \<open>id\<close>, it stays.
\<close>

theorem deleteTemplate_current:
  "templates (deleteTemplate i s) = filter (\<lambda>t. tpl_id t \<noteq> i) (templates s)
   \<and> set (templates (deleteTemplate i s)) = set (templates s) - {t. tpl_id t = i}
   \<and> currentTemplateId (deleteTemplate i s) =
       (if currentTemplateId s = Some i
        then (case templates (deleteTemplate i s) of
                [] \<Rightarrow> None
              | t # _ \<Rightarrow> if tpl_id t = [] then None else Some (tpl_id t))
        else currentTemplateId s)
   \<and> recipients (deleteTemplate i s) = recipients s
   \<and> certificates (deleteTemplate i s) = certificates s
   \<and> collections (deleteTemplate i s) = collections s"
  by (auto simp: deleteTemplate_def find_filter or_null_def split: list.splits)

text \<open>
  C10 as stated fails: deleting the current template \<^verbatim>\<open>t1\<close> of a store whose next template
  has the identifier \<^verbatim>\<open>""\<close> leaves that template first, and the current template is
  \<^verbatim>\<open>null\<close>, not that template's identifier.
\<close>

theorem deleteTemplate_empty_id_counterexample:
  "currentTemplateId store_with_empty_id = Some ''t1''
   \<and> templates (deleteTemplate ''t1'' store_with_empty_id) = [template_unnamed]
   \<and> currentTemplateId (deleteTemplate ''t1'' store_with_empty_id) = None
   \<and> currentTemplateId (deleteTemplate ''t1'' store_with_empty_id)
       \<noteq> Some (tpl_id (hd (templates (deleteTemplate ''t1'' store_with_empty_id))))"
  by (simp add: deleteTemplate_def or_null_def store_with_empty_id_def template_t1_def
      template_unnamed_def)

section \<open>Updating entities\<close>

text \<open>
  C3. \<^verbatim>\<open>updateTemplate\<close> and \<^verbatim>\<open>updateRecipient\<close> put, at every position whose entity has
  the given identifier, the entity made of exactly the payload's properties and that
  identifier, and leave the other positions alone; \<^verbatim>\<open>updateCertificate\<close> keeps, at every
  matching position, each property of the existing certificate that the updates do not
  give and takes the others from the updates. Where no entity has the identifier, each
  of the three actions leaves the store as it was.
\<close>

theorem update_replaces_or_merges:
  "list_all2
     (\<lambda>t t'. if tpl_id t = i
              then t' = \<lparr>tpl_id = i, tpl_name = tp_name p, tpl_imageUrl = tp_imageUrl p,
                         tpl_fields = tp_fields p\<rparr>
              else t' = t)
     (templates s) (templates (updateTemplate i p s))
   \<and> list_all2
     (\<lambda>r r'. if rcp_id r = j
              then r' = \<lparr>rcp_id = j, rcp_name = rp_name q, rcp_email = rp_email q,
                         rcp_course = rp_course q, rcp_customFields = rp_customFields q,
                         rcp_issueDate = rp_issueDate q\<rparr>
              else r' = r)
     (recipients s) (recipients (updateRecipient j q s))
   \<and> list_all2
     (\<lambda>c c'. if cert_id c = k
              then cert_id c' = (case cu_id u of None \<Rightarrow> cert_id c | Some v \<Rightarrow> v)
                 \<and> cert_recipientId c' =
                     (case cu_recipientId u of None \<Rightarrow> cert_recipientId c | Some v \<Rightarrow> v)
                 \<and> cert_templateId c' =
                     (case cu_templateId u of None \<Rightarrow> cert_templateId c | Some v \<Rightarrow> v)
                 \<and> cert_qrCodeUrl c' =
                     (case cu_qrCodeUrl u of None \<Rightarrow> cert_qrCodeUrl c | Some v \<Rightarrow> v)
                 \<and> cert_issueDate c' =
                     (case cu_issueDate u of None \<Rightarrow> cert_issueDate c | Some v \<Rightarrow> v)
                 \<and> cert_verificationUrl c' =
                     (case cu_verificationUrl u of None \<Rightarrow> cert_verificationUrl c | Some v \<Rightarrow> v)
                 \<and> cert_status c' = (case cu_status u of None \<Rightarrow> cert_status c | Some v \<Rightarrow> v)
              else c' = c)
     (certificates s) (certificates (updateCertificate k u s))
   \<and> (i \<notin> tpl_id ` set (templates s) \<longrightarrow> updateTemplate i p s = s)
   \<and> (j \<notin> rcp_id ` set (recipients s) \<longrightarrow> updateRecipient j q s = s)
   \<and> (k \<notin> cert_id ` set (certificates s) \<longrightarrow> updateCertificate k u s = s)"
proof -
  have t: "list_all2
     (\<lambda>t t'. if tpl_id t = i
              then t' = \<lparr>tpl_id = i, tpl_name = tp_name p, tpl_imageUrl = tp_imageUrl p,
                         tpl_fields = tp_fields p\<rparr>
              else t' = t)
     (templates s) (templates (updateTemplate i p s))"
    by (simp add: updateTemplate_def template_with_id_def list_all2_map2 list_all2_same)
  have r: "list_all2
     (\<lambda>r r'. if rcp_id r = j
              then r' = \<lparr>rcp_id = j, rcp_name = rp_name q, rcp_email = rp_email q,
                         rcp_course = rp_course q, rcp_customFields = rp_customFields q,
                         rcp_issueDate = rp_issueDate q\<rparr>
              else r' = r)
     (recipients s) (recipients (updateRecipient j q s))"
    by (simp add: updateRecipient_def recipient_with_id_def list_all2_map2 list_all2_same)
  have c: "list_all2
     (\<lambda>c c'. if cert_id c = k
              then cert_id c' = (case cu_id u of None \<Rightarrow> cert_id c | Some v \<Rightarrow> v)
                 \<and> cert_recipientId c' =
                     (case cu_recipientId u of None \<Rightarrow> cert_recipientId c | Some v \<Rightarrow> v)
                 \<and> cert_templateId c' =
                     (case cu_templateId u of None \<Rightarrow> cert_templateId c | Some v \<Rightarrow> v)
                 \<and> cert_qrCodeUrl c' =
                     (case cu_qrCodeUrl u of None \<Rightarrow> cert_qrCodeUrl c | Some v \<Rightarrow> v)
                 \<and> cert_issueDate c' =
                     (case cu_issueDate u of None \<Rightarrow> cert_issueDate c | Some v \<Rightarrow> v)
                 \<and> cert_verificationUrl c' =
                     (case cu_verificationUrl u of None \<Rightarrow> cert_verificationUrl c | Some v \<Rightarrow> v)
                 \<and> cert_status c' = (case cu_status u of None \<Rightarrow> cert_status c | Some v \<Rightarrow> v)
              else c' = c)
     (certificates s) (certificates (updateCertificate k u s))"
    by (simp add: updateCertificate_def merge_certificate_def list_all2_map2 list_all2_same)
  have nt: "i \<notin> tpl_id ` set (templates s) \<longrightarrow> updateTemplate i p s = s"
  proof
    assume "i \<notin> tpl_id ` set (templates s)"
    then have "map (\<lambda>t. if tpl_id t = i then template_with_id p i else t) (templates s) = templates s"
      by (intro map_unchanged) auto
    then show "updateTemplate i p s = s" by (simp add: updateTemplate_def)
  qed
  have nr: "j \<notin> rcp_id ` set (recipients s) \<longrightarrow> updateRecipient j q s = s"
  proof
    assume "j \<notin> rcp_id ` set (recipients s)"
    then have "map (\<lambda>r. if rcp_id r = j then recipient_with_id q j else r) (recipients s) = recipients s"
      by (intro map_unchanged) auto
    then show "updateRecipient j q s = s" by (simp add: updateRecipient_def)
  qed
  have nc: "k \<notin> cert_id ` set (certificates s) \<longrightarrow> updateCertificate k u s = s"
  proof
    assume "k \<notin> cert_id ` set (certificates s)"
    then have "map (\<lambda>c. if cert_id c = k then merge_certificate c u else c) (certificates s) = certificates s"
      by (intro map_unchanged) auto
    then show "updateCertificate k u s = s" by (simp add: updateCertificate_def)
  qed
  from t r c nt nr nc show ?thesis by blast
qed

theorem update_replaces_or_merges_witness:
  "templates (updateTemplate ''t1'' payload_new example_store)
     = [\<lparr>tpl_id = ''t1'', tpl_name = ''Nuevo'', tpl_imageUrl = ''/assets/nuevo.jpg'', tpl_fields = []\<rparr>]
   \<and> recipients (updateRecipient ''r1'' payload_eva example_store)
     = [\<lparr>rcp_id = ''r1'', rcp_name = ''Eva'', rcp_email = Some ''eva@x.test'', rcp_course = None,
         rcp_customFields = None, rcp_issueDate = ''2025-11-01''\<rparr>]
   \<and> certificates (updateCertificate ''c1'' updates_revoked example_store)
     = [certificate_c1\<lparr>cert_status := ''draft''\<rparr>, certificate_c2]
   \<and> ''zz'' \<notin> tpl_id ` set (templates example_store)
   \<and> ''zz'' \<notin> rcp_id ` set (recipients example_store)
   \<and> ''zz'' \<notin> cert_id ` set (certificates example_store)
   \<and> updateTemplate ''zz'' payload_new example_store = example_store
   \<and> updateRecipient ''zz'' payload_eva example_store = example_store
   \<and> updateCertificate ''zz'' updates_revoked example_store = example_store"
  using update_replaces_or_merges [of "''t1''" payload_new example_store "''r1''" payload_eva
      "''c1''" updates_revoked]
    update_replaces_or_merges [of "''zz''" payload_new example_store "''zz''" payload_eva
      "''zz''" updates_revoked]
  by (simp add: example_store_def template_t1_def recipient_ana_def certificate_c1_def
      certificate_c2_def payload_new_def payload_eva_def updates_revoked_def
      updateTemplate_def updateRecipient_def updateCertificate_def template_with_id_def
      recipient_with_id_def merge_certificate_def)

section \<open>Adding certificates to a collection\<close>

text \<open>The members \<^verbatim>\<open>addCertificatesToCollection\<close> gives one matching collection.\<close>

lemma added_members_stable:
  "filter (\<lambda>c. \<not> list_ex (\<lambda>existing. cert_id existing = cert_id c)
                  (ms @ filter (\<lambda>c. \<not> list_ex (\<lambda>existing. cert_id existing = cert_id c) ms) ts))
     ts = []"
  by (auto simp: filter_empty_conv list_ex_iff)

lemma added_members_ids:
  "cert_id ` set (ms @ filter (\<lambda>c. cert_id c \<in> set ids \<and>
                                 \<not> list_ex (\<lambda>existing. cert_id existing = cert_id c) ms) cs)
     = cert_id ` set ms \<union> (set ids \<inter> cert_id ` set cs)"
proof (intro set_eqI iffI)
  fix i
  assume "i \<in> cert_id ` set (ms @ filter (\<lambda>c. cert_id c \<in> set ids \<and>
                                 \<not> list_ex (\<lambda>existing. cert_id existing = cert_id c) ms) cs)"
  then show "i \<in> cert_id ` set ms \<union> (set ids \<inter> cert_id ` set cs)"
    by auto
next
  fix i
  assume a: "i \<in> cert_id ` set ms \<union> (set ids \<inter> cert_id ` set cs)"
  show "i \<in> cert_id ` set (ms @ filter (\<lambda>c. cert_id c \<in> set ids \<and>
                                 \<not> list_ex (\<lambda>existing. cert_id existing = cert_id c) ms) cs)"
  proof (cases "i \<in> cert_id ` set ms")
    case True
    then show ?thesis by auto
  next
    case False
    with a obtain c where c: "c \<in> set cs" "cert_id c = i" "i \<in> set ids" by auto
    have "cert_id e \<noteq> cert_id c" if "e \<in> set ms" for e
    proof
      assume "cert_id e = cert_id c"
      with that c have "i \<in> cert_id ` set ms" by (metis imageI)
      with False show False by simp
    qed
    then have "\<not> list_ex (\<lambda>existing. cert_id existing = cert_id c) ms"
      by (simp add: list_ex_iff)
    with c have "c \<in> set (filter (\<lambda>c. cert_id c \<in> set ids \<and>
                                 \<not> list_ex (\<lambda>existing. cert_id existing = cert_id c) ms) cs)"
      by simp
    with c show ?thesis by force
  qed
qed

lemma added_members_fresh:
  "cert_id ` set (filter (\<lambda>c. cert_id c \<in> set ids \<and>
                            \<not> list_ex (\<lambda>existing. cert_id existing = cert_id c) ms) cs)
     \<inter> cert_id ` set ms = {}"
  by (auto simp: list_ex_iff)

text \<open>
  C6. Calling \<^verbatim>\<open>addCertificatesToCollection(collectionId, certificateIds)\<close> twice in
  succession leaves the store the first call left, so the membership of the collection
  is the same. The first call keeps the existing members in place and appends
  certificates of the store; the identifiers of the members afterwards are those of the
  members before together with the requested identifiers that a certificate of the
  store has, and no appended certificate has the identifier of a member that was
  already there. Other collections and the rest of the store are not changed.
\<close>

theorem addCertificatesToCollection_idempotent:
  "addCertificatesToCollection cid ids (addCertificatesToCollection cid ids s)
     = addCertificatesToCollection cid ids s
   \<and> list_all2
       (\<lambda>c c'. if col_id c = cid
                then take (length (col_certificates c)) (col_certificates c') = col_certificates c
                   \<and> cert_id ` set (col_certificates c')
                       = cert_id ` set (col_certificates c)
                         \<union> (set ids \<inter> cert_id ` set (certificates s))
                   \<and> cert_id ` set (drop (length (col_certificates c)) (col_certificates c'))
                       \<inter> cert_id ` set (col_certificates c) = {}
                   \<and> c' = c\<lparr>col_certificates := col_certificates c'\<rparr>
                else c' = c)
       (collections s) (collections (addCertificatesToCollection cid ids s))
   \<and> templates (addCertificatesToCollection cid ids s) = templates s
   \<and> recipients (addCertificatesToCollection cid ids s) = recipients s
   \<and> certificates (addCertificatesToCollection cid ids s) = certificates s
   \<and> currentTemplateId (addCertificatesToCollection cid ids s) = currentTemplateId s"
proof -
  define toAdd where "toAdd = filter (\<lambda>c. cert_id c \<in> set ids) (certificates s)"
  define step :: "CertificateCollection \<Rightarrow> CertificateCollection" where "step = (\<lambda>collection.
      if col_id collection = cid
      then collection\<lparr>col_certificates :=
             col_certificates collection @
             filter (\<lambda>c. \<not> list_ex (\<lambda>existing. cert_id existing = cert_id c)
                              (col_certificates collection)) toAdd\<rparr>
      else collection)"
  have once: "addCertificatesToCollection cid ids s = s\<lparr>collections := map step (collections s)\<rparr>"
    by (simp add: addCertificatesToCollection_def Let_def step_def toAdd_def)
  have again: "addCertificatesToCollection cid ids (s\<lparr>collections := map step (collections s)\<rparr>)
      = s\<lparr>collections := map step (map step (collections s))\<rparr>"
    by (simp add: addCertificatesToCollection_def Let_def step_def toAdd_def)
  have "step (step c) = step c" for c
    using added_members_stable [of "col_certificates c" toAdd] by (simp add: step_def)
  then have "map step (map step (collections s)) = map step (collections s)"
    by simp
  with once again have idem:
    "addCertificatesToCollection cid ids (addCertificatesToCollection cid ids s)
       = addCertificatesToCollection cid ids s"
    by simp
  have member: "(if col_id c = cid
                then take (length (col_certificates c)) (col_certificates (step c)) = col_certificates c
                   \<and> cert_id ` set (col_certificates (step c))
                       = cert_id ` set (col_certificates c)
                         \<union> (set ids \<inter> cert_id ` set (certificates s))
                   \<and> cert_id ` set (drop (length (col_certificates c)) (col_certificates (step c)))
                       \<inter> cert_id ` set (col_certificates c) = {}
                   \<and> step c = c\<lparr>col_certificates := col_certificates (step c)\<rparr>
                else step c = c)" for c
    using added_members_ids [of "col_certificates c" ids "certificates s"]
      added_members_fresh [of ids "col_certificates c" "certificates s"]
    by (simp add: step_def toAdd_def del: set_append set_filter)
  have members: "list_all2
       (\<lambda>c c'. if col_id c = cid
                then take (length (col_certificates c)) (col_certificates c') = col_certificates c
                   \<and> cert_id ` set (col_certificates c')
                       = cert_id ` set (col_certificates c)
                         \<union> (set ids \<inter> cert_id ` set (certificates s))
                   \<and> cert_id ` set (drop (length (col_certificates c)) (col_certificates c'))
                       \<inter> cert_id ` set (col_certificates c) = {}
                   \<and> c' = c\<lparr>col_certificates := col_certificates c'\<rparr>
                else c' = c)
       (collections s) (collections (addCertificatesToCollection cid ids s))"
    unfolding once using member by (simp add: list_all2_map2 list_all2_same)
  show ?thesis
    using idem members by (simp add: addCertificatesToCollection_def Let_def)
qed

section \<open>Issuing one certificate\<close>

text \<open>
  C1. For every recipient and template identifier, \<^verbatim>\<open>generateCertificate\<close> returns the
  identifier \<^verbatim>\<open>nanoid()\<close> gave, and the store it leaves when it returns holds the old
  certificates followed by one new certificate with that identifier and the status
  \<^verbatim>\<open>published\<close>. The identifier and the store are the same whatever the remote
  collaborators answer: the asynchronous part never writes the store.
\<close>

theorem generateCertificate_local:
  "returned_id (generateCertificate env remote rid tid s) = env_nanoid env 0
   \<and> (\<exists>c. certificates (store_after (generateCertificate env remote rid tid s))
             = certificates s @ [c]
          \<and> cert_id c = returned_id (generateCertificate env remote rid tid s)
          \<and> cert_recipientId c = rid
          \<and> cert_templateId c = tid
          \<and> cert_status c = ''published'')
   \<and> store_after (generateCertificate env remote rid tid s)
       = store_after (generateCertificate env remote' rid tid s)
   \<and> returned_id (generateCertificate env remote rid tid s)
       = returned_id (generateCertificate env remote' rid tid s)"
  by (simp add: generateCertificate_def Let_def newCertificate_def)

text \<open>
  C8. With the verification origin \<open>origin\<close>, the certificate \<^verbatim>\<open>generateCertificate\<close>
  appends has the returned identifier, its \<^verbatim>\<open>verificationUrl\<close> is
  \<open>origin @ ''/verify/'' @ id\<close>, and its \<^verbatim>\<open>qrCodeUrl\<close> is its \<^verbatim>\<open>verificationUrl\<close>.
\<close>

theorem generateCertificate_verificationUrl:
  assumes "env_origin env = Some origin"
  shows "cert_id (last (certificates (store_after (generateCertificate env remote rid tid s))))
           = returned_id (generateCertificate env remote rid tid s)
         \<and> cert_verificationUrl
             (last (certificates (store_after (generateCertificate env remote rid tid s))))
           = origin @ ''/verify/'' @ returned_id (generateCertificate env remote rid tid s)
         \<and> cert_qrCodeUrl
             (last (certificates (store_after (generateCertificate env remote rid tid s))))
           = cert_verificationUrl
               (last (certificates (store_after (generateCertificate env remote rid tid s))))"
  using assms by (simp add: generateCertificate_def Let_def newCertificate_def baseUrl_def)

theorem generateCertificate_verificationUrl_witness:
  "env_origin env_x_test = Some ''https://x.test''
   \<and> returned_id (generateCertificate env_x_test remote_down ''r1'' ''t1'' example_store) = ''n0''
   \<and> cert_verificationUrl
       (last (certificates (store_after
          (generateCertificate env_x_test remote_down ''r1'' ''t1'' example_store))))
     = ''https://x.test/verify/n0''
   \<and> cert_qrCodeUrl
       (last (certificates (store_after
          (generateCertificate env_x_test remote_down ''r1'' ''t1'' example_store))))
     = ''https://x.test/verify/n0''"
proof -
  have o: "env_origin env_x_test = Some ''https://x.test''"
    by (simp add: env_x_test_def)
  have i: "returned_id (generateCertificate env_x_test remote_down ''r1'' ''t1'' example_store) = ''n0''"
    by (simp add: generateCertificate_def Let_def newCertificate_def env_x_test_def)
  show ?thesis
    using o i generateCertificate_verificationUrl [OF o, of remote_down "''r1''" "''t1''" example_store]
    by simp
qed

section \<open>Issuing in bulk\<close>

lemma batches_from_seven:
  assumes "length xs = 7"
  shows "batches_from 0 xs = [take 3 xs, take 3 (drop 3 xs), drop 6 xs]"
proof -
  have "batches_from 9 xs = []"
    using assms by (subst batches_from.simps) simp
  then have "batches_from 6 xs = [drop 6 xs]"
    using assms by (subst batches_from.simps) (simp add: batchSize_def)
  then have "batches_from 3 xs = [take 3 (drop 3 xs), drop 6 xs]"
    using assms by (subst batches_from.simps) (simp add: batchSize_def)
  then show ?thesis
    using assms by (subst batches_from.simps) (simp add: batchSize_def)
qed

lemma round_batch_processBatch:
  "round_batch (processBatch env remote rs template tid batch) = map snd batch"
  by (simp add: processBatch_def Let_def)

lemma returned_ids_generateBulkCertificates:
  "returned_ids (generateBulkCertificates env remote rids tid s)
     = map (\<lambda>(k, r). env_nanoid env k) (enumerate 0 rids)"
  by (simp add: generateBulkCertificates_def Let_def newCertificate_def case_prod_unfold comp_def)

lemma append_in_shuffles: "xs @ ys \<in> shuffles xs ys"
  by (induction xs) (simp_all add: Cons_in_shuffles_leftI)

lemma concat_in_interleavings: "concat xss \<in> interleavings xss"
  by (induction xss) (auto intro: append_in_shuffles)

lemma set_interleavings: "t \<in> interleavings xss \<Longrightarrow> set t = \<Union> (set ` set xss)"
  by (induction xss arbitrary: t) (auto dest: set_shuffles)

lemma started_append: "started (t @ u) = started t @ started u"
  by (simp add: started_def map_filter_def)

lemma mentioned_append: "mentioned (t @ u) = mentioned t @ mentioned u"
  by (simp add: mentioned_def map_filter_def)

lemma inserted_append: "inserted (t @ u) = inserted t @ inserted u"
  by (simp add: inserted_def map_filter_def)

lemma inserted_empty: "(\<And>e. e \<in> set t \<Longrightarrow> start_certificate e = None) \<Longrightarrow> inserted t = []"
proof -
  assume a: "\<And>e. e \<in> set t \<Longrightarrow> start_certificate e = None"
  have "insert_certificate e = None" if "e \<in> set t" for e
    using a [OF that] by (cases e) simp_all
  then show ?thesis by (simp add: inserted_def map_filter_def filter_empty_conv)
qed

lemma started_empty: "(\<And>e. e \<in> set t \<Longrightarrow> start_certificate e = None) \<Longrightarrow> started t = []"
  by (simp add: started_def map_filter_def filter_empty_conv)

lemma set_mentioned: "set (mentioned t) = {i. \<exists>e \<in> set t. event_certificate e = Some i}"
  by (force simp: mentioned_def map_filter_def)

lemma pdf_step_events:
  "e \<in> set (pdf_step remote i t r) \<Longrightarrow> start_certificate e = None \<and> event_certificate e = Some i"
  by (auto simp: pdf_step_def split: option.splits if_splits)

lemma processCertificate_request:
  "started (pl_request (processCertificate env remote rs template tid kc)) = [cert_id (snd kc)]
   \<and> mentioned (pl_request (processCertificate env remote rs template tid kc)) = [cert_id (snd kc)]"
  by (simp add: processCertificate_def Let_def started_def mentioned_def map_filter_def
      dbCertificate_def split: option.splits)

lemma find_None_image: "find (\<lambda>x. f x = i) xs = None \<longleftrightarrow> i \<notin> f ` set xs"
  by (auto simp: find_None_iff)

lemma processCertificate_inserted:
  "inserted (pl_request (processCertificate env remote rs template tid kc))
     = (if cert_recipientId (snd kc) \<in> rcp_id ` set rs \<and> template \<noteq> None
        then [cert_id (snd kc)] else [])"
proof (cases "find (\<lambda>r. rcp_id r = cert_recipientId (snd kc)) rs")
  case None
  then have "cert_recipientId (snd kc) \<notin> rcp_id ` set rs"
    using find_None_image [of rcp_id "cert_recipientId (snd kc)" rs] by simp
  with None show ?thesis
    by (simp add: processCertificate_def Let_def inserted_def map_filter_def)
next
  case (Some r)
  then have "cert_recipientId (snd kc) \<in> rcp_id ` set rs"
    using find_None_image [of rcp_id "cert_recipientId (snd kc)" rs] by simp
  with Some show ?thesis
    by (cases template)
      (simp_all add: processCertificate_def Let_def inserted_def map_filter_def dbCertificate_def)
qed

lemma processCertificate_continuation:
  "e \<in> set (pl_continuation (processCertificate env remote rs template tid kc))
   \<Longrightarrow> start_certificate e = None \<and> event_certificate e = Some (cert_id (snd kc))"
  by (auto simp: processCertificate_def Let_def split: option.splits if_splits
      dest: pdf_step_events)

lemma processBatch_requests:
  "started (round_requests (processBatch env remote rs template tid batch)) = map (cert_id \<circ> snd) batch
   \<and> mentioned (round_requests (processBatch env remote rs template tid batch))
       = map (cert_id \<circ> snd) batch"
proof (induction batch)
  case Nil
  show ?case by (simp add: processBatch_def started_def mentioned_def map_filter_def)
next
  case (Cons kc batch)
  have "round_requests (processBatch env remote rs template tid (kc # batch))
      = pl_request (processCertificate env remote rs template tid kc)
        @ round_requests (processBatch env remote rs template tid batch)"
    by (simp add: processBatch_def Let_def)
  with Cons processCertificate_request [of env remote rs template tid kc] show ?case
    by (simp add: started_append mentioned_append)
qed

lemma processBatch_inserted:
  "inserted (round_requests (processBatch env remote rs template tid batch))
     = map (cert_id \<circ> snd)
         (filter (\<lambda>kc. cert_recipientId (snd kc) \<in> rcp_id ` set rs \<and> template \<noteq> None) batch)"
proof (induction batch)
  case Nil
  show ?case by (simp add: processBatch_def inserted_def map_filter_def)
next
  case (Cons kc batch)
  have "round_requests (processBatch env remote rs template tid (kc # batch))
      = pl_request (processCertificate env remote rs template tid kc)
        @ round_requests (processBatch env remote rs template tid batch)"
    by (simp add: processBatch_def Let_def)
  with Cons processCertificate_inserted [of env remote rs template tid kc] show ?case
    by (simp add: inserted_append)
qed

lemma processBatch_continuations:
  assumes "es \<in> set (round_continuations (processBatch env remote rs template tid batch))"
    and "e \<in> set es"
  shows "start_certificate e = None \<and> event_certificate e \<in> Some ` cert_id ` snd ` set batch"
proof -
  from assms(1) obtain kc where kc: "kc \<in> set batch"
    "es = pl_continuation (processCertificate env remote rs template tid kc)"
    by (auto simp: processBatch_def Let_def)
  with assms(2) processCertificate_continuation [of e env remote rs template tid kc]
  show ?thesis by auto
qed

lemma round_traces_processBatch:
  assumes "t \<in> round_traces (processBatch env remote rs template tid batch)"
  shows "started t = map (cert_id \<circ> snd) batch
         \<and> set (mentioned t) = cert_id ` snd ` set batch
         \<and> inserted t = map (cert_id \<circ> snd)
             (filter (\<lambda>kc. cert_recipientId (snd kc) \<in> rcp_id ` set rs \<and> template \<noteq> None) batch)"
proof -
  let ?R = "processBatch env remote rs template tid batch"
  from assms obtain u where u: "u \<in> interleavings (round_continuations ?R)"
    "t = round_requests ?R @ u"
    by (auto simp: round_traces_def)
  have ev: "start_certificate e = None \<and> event_certificate e \<in> Some ` cert_id ` snd ` set batch"
    if "e \<in> set u" for e
  proof -
    from that set_interleavings [OF u(1)] obtain es
      where "es \<in> set (round_continuations ?R)" "e \<in> set es" by auto
    then show ?thesis by (rule processBatch_continuations)
  qed
  then have su: "started u = []" by (intro started_empty) simp
  from ev have iu: "inserted u = []" by (intro inserted_empty) simp
  have mu: "set (mentioned u) \<subseteq> cert_id ` snd ` set batch"
  proof
    fix i assume "i \<in> set (mentioned u)"
    then obtain e where e: "e \<in> set u" "event_certificate e = Some i"
      by (auto simp: set_mentioned)
    with ev [OF e(1)] have "Some i \<in> Some ` cert_id ` snd ` set batch" by simp
    then show "i \<in> cert_id ` snd ` set batch" by auto
  qed
  from u(2) su iu mu processBatch_requests [of env remote rs template tid batch]
    processBatch_inserted [of env remote rs template tid batch]
  show ?thesis by (auto simp: started_append mentioned_append inserted_append)
qed

lemma round_traces_nonempty: "round_traces r \<noteq> {}"
  using concat_in_interleavings [of "round_continuations r"] by (auto simp: round_traces_def)

lemma in_turn_three:
  "t \<in> in_turn [A, B, C] \<longleftrightarrow> (\<exists>a \<in> A. \<exists>b \<in> B. \<exists>c \<in> C. t = a @ b @ c)"
  by (auto simp: image_iff)

text \<open>
  C2. For seven recipient identifiers, \<^verbatim>\<open>generateBulkCertificates\<close> appends seven new
  certificates, one per recipient in array order, to the certificates of the store and
  returns their identifiers; the store it leaves does not depend on the remote
  collaborators. The asynchronous part works on three batches: the first three new
  certificates, the next three, and the last one. Every order of events it can produce
  is made of three segments followed by the summary: the segment of a batch starts the
  processing of exactly the certificates of that batch, in array order, calls
  \<^verbatim>\<open>insertCertificate\<close> for exactly those of them whose recipient and template are in the
  store, in array order, and every event it holds is about a certificate of that batch.
  So each batch is complete before the next starts.
\<close>

theorem generateBulkCertificates_seven:
  assumes "length recipientIds = 7"
  shows "\<exists>cs. length cs = 7
           \<and> certificates (bulk_store_after (generateBulkCertificates env remote recipientIds tid s))
               = certificates s @ cs
           \<and> returned_ids (generateBulkCertificates env remote recipientIds tid s) = map cert_id cs
           \<and> map cert_recipientId cs = recipientIds
           \<and> map round_batch (rounds (generateBulkCertificates env remote recipientIds tid s))
               = [take 3 cs, take 3 (drop 3 cs), drop 6 cs]
           \<and> map (\<lambda>r. length (round_batch r))
                 (rounds (generateBulkCertificates env remote recipientIds tid s)) = [3, 3, 1]
           \<and> concat (map round_batch (rounds (generateBulkCertificates env remote recipientIds tid s)))
               = cs
           \<and> bulk_store_after (generateBulkCertificates env remote' recipientIds tid s)
               = bulk_store_after (generateBulkCertificates env remote recipientIds tid s)
           \<and> bulk_traces (generateBulkCertificates env remote recipientIds tid s) \<noteq> {}
           \<and> (\<forall>t \<in> bulk_traces (generateBulkCertificates env remote recipientIds tid s).
                \<exists>t1 t2 t3.
                  t = t1 @ t2 @ t3 @ summary (generateBulkCertificates env remote recipientIds tid s)
                  \<and> started t1 = map cert_id (take 3 cs)
                  \<and> set (mentioned t1) = cert_id ` set (take 3 cs)
                  \<and> inserted t1
                      = map cert_id
                          (filter (\<lambda>c. cert_recipientId c \<in> rcp_id ` set (recipients s)
                                       \<and> tid \<in> tpl_id ` set (templates s)) (take 3 cs))
                  \<and> started t2 = map cert_id (take 3 (drop 3 cs))
                  \<and> set (mentioned t2) = cert_id ` set (take 3 (drop 3 cs))
                  \<and> inserted t2
                      = map cert_id
                          (filter (\<lambda>c. cert_recipientId c \<in> rcp_id ` set (recipients s)
                                       \<and> tid \<in> tpl_id ` set (templates s)) (take 3 (drop 3 cs)))
                  \<and> started t3 = map cert_id (drop 6 cs)
                  \<and> set (mentioned t3) = cert_id ` set (drop 6 cs)
                  \<and> inserted t3
                      = map cert_id
                          (filter (\<lambda>c. cert_recipientId c \<in> rcp_id ` set (recipients s)
                                       \<and> tid \<in> tpl_id ` set (templates s)) (drop 6 cs)))"
proof -
  let ?r = "generateBulkCertificates env remote recipientIds tid s"
  define cs where "cs = map (\<lambda>(k, recipientId). newCertificate env k recipientId tid)
              (enumerate 0 recipientIds)"
  define template where "template = find (\<lambda>t. tpl_id t = tid) (templates s)"
  define R where "R = processBatch env remote (recipients s) template tid"
  define E where "E = enumerate 0 cs"
  have len: "length cs = 7"
    using assms by (simp add: cs_def)
  then have len': "length E = 7" by (simp add: E_def)
  have st: "bulk_store_after (generateBulkCertificates env r recipientIds tid s)
      = s\<lparr>certificates := certificates s @ cs\<rparr>" for r
    by (simp add: generateBulkCertificates_def Let_def cs_def)
  have ids: "returned_ids ?r = map cert_id cs"
    by (simp add: generateBulkCertificates_def Let_def cs_def)
  have rcp: "map cert_recipientId cs = recipientIds"
  proof -
    have "cert_recipientId \<circ> (\<lambda>(k, recipientId). newCertificate env k recipientId tid) = snd"
      by (auto simp: newCertificate_def Let_def)
    then show ?thesis by (simp add: cs_def)
  qed
  have "rounds ?r = map R (batches_from 0 E)"
    by (simp add: generateBulkCertificates_def Let_def cs_def R_def E_def template_def)
  then have rs: "rounds ?r = [R (take 3 E), R (take 3 (drop 3 E)), R (drop 6 E)]"
    by (simp add: batches_from_seven [OF len'])
  have snd_E: "map snd (take 3 E) = take 3 cs" "map snd (take 3 (drop 3 E)) = take 3 (drop 3 cs)"
    "map snd (drop 6 E) = drop 6 cs"
    by (simp_all add: E_def flip: take_map drop_map)
  have b: "map round_batch (rounds ?r) = [take 3 cs, take 3 (drop 3 cs), drop 6 cs]"
    by (simp add: rs R_def round_batch_processBatch snd_E)
  have sizes: "map (\<lambda>r. length (round_batch r)) (rounds ?r) = [3, 3, 1]"
  proof -
    have "map (\<lambda>r. length (round_batch r)) (rounds ?r) = map length (map round_batch (rounds ?r))"
      by (simp add: comp_def)
    also have "\<dots> = [3, 3, 1]"
      unfolding b using len by simp
    finally show ?thesis .
  qed
  have "take 3 cs @ take 3 (drop 3 cs) @ drop 6 cs = cs"
  proof -
    have "take 3 (drop 3 cs) @ drop 6 cs = drop 3 cs"
      using append_take_drop_id [of 3 "drop 3 cs"] by simp
    then show ?thesis by simp
  qed
  then have cat: "concat (map round_batch (rounds ?r)) = cs"
    unfolding b by simp
  have tr: "bulk_traces ?r
      = (\<lambda>t. t @ summary ?r)
        ` in_turn [round_traces (R (take 3 E)), round_traces (R (take 3 (drop 3 E))),
                   round_traces (R (drop 6 E))]"
    by (simp add: bulk_traces_def rs)
  have ne: "bulk_traces ?r \<noteq> {}"
  proof -
    obtain a b c where "a \<in> round_traces (R (take 3 E))"
      "b \<in> round_traces (R (take 3 (drop 3 E)))" "c \<in> round_traces (R (drop 6 E))"
      using round_traces_nonempty by blast
    then have "a @ b @ c \<in> in_turn [round_traces (R (take 3 E)),
        round_traces (R (take 3 (drop 3 E))), round_traces (R (drop 6 E))]"
      unfolding in_turn_three by blast
    then show ?thesis unfolding tr by blast
  qed
  have order: "\<exists>t1 t2 t3.
        t = t1 @ t2 @ t3 @ summary ?r
        \<and> started t1 = map cert_id (take 3 cs)
        \<and> set (mentioned t1) = cert_id ` set (take 3 cs)
                  \<and> inserted t1
                      = map cert_id
                          (filter (\<lambda>c. cert_recipientId c \<in> rcp_id ` set (recipients s)
                                       \<and> tid \<in> tpl_id ` set (templates s)) (take 3 cs))
        \<and> started t2 = map cert_id (take 3 (drop 3 cs))
        \<and> set (mentioned t2) = cert_id ` set (take 3 (drop 3 cs))
                  \<and> inserted t2
                      = map cert_id
                          (filter (\<lambda>c. cert_recipientId c \<in> rcp_id ` set (recipients s)
                                       \<and> tid \<in> tpl_id ` set (templates s)) (take 3 (drop 3 cs)))
        \<and> started t3 = map cert_id (drop 6 cs)
        \<and> set (mentioned t3) = cert_id ` set (drop 6 cs)
                  \<and> inserted t3
                      = map cert_id
                          (filter (\<lambda>c. cert_recipientId c \<in> rcp_id ` set (recipients s)
                                       \<and> tid \<in> tpl_id ` set (templates s)) (drop 6 cs))"
    if "t \<in> bulk_traces ?r" for t
  proof -
    from that obtain a b c where abc: "a \<in> round_traces (R (take 3 E))"
      "b \<in> round_traces (R (take 3 (drop 3 E)))" "c \<in> round_traces (R (drop 6 E))"
      "t = a @ b @ c @ summary ?r"
      unfolding tr image_iff in_turn_three by auto
    have tf: "template \<noteq> None \<longleftrightarrow> tid \<in> tpl_id ` set (templates s)"
      using find_None_image [of tpl_id tid "templates s"] by (simp add: template_def)
    have seg: "started u = map cert_id (map snd batch)
        \<and> set (mentioned u) = cert_id ` set (map snd batch)
        \<and> inserted u
            = map cert_id
                (filter (\<lambda>c. cert_recipientId c \<in> rcp_id ` set (recipients s)
                             \<and> tid \<in> tpl_id ` set (templates s)) (map snd batch))"
      if "u \<in> round_traces (R batch)" for u batch
      using round_traces_processBatch [OF that [unfolded R_def], unfolded tf]
      by (simp add: image_image filter_map comp_def)
    from seg [OF abc(1)] seg [OF abc(2)] seg [OF abc(3)] abc(4) show ?thesis
      unfolding snd_E by blast
  qed
  then have o: "\<forall>t \<in> bulk_traces ?r. \<exists>t1 t2 t3.
        t = t1 @ t2 @ t3 @ summary ?r
        \<and> started t1 = map cert_id (take 3 cs)
        \<and> set (mentioned t1) = cert_id ` set (take 3 cs)
                  \<and> inserted t1
                      = map cert_id
                          (filter (\<lambda>c. cert_recipientId c \<in> rcp_id ` set (recipients s)
                                       \<and> tid \<in> tpl_id ` set (templates s)) (take 3 cs))
        \<and> started t2 = map cert_id (take 3 (drop 3 cs))
        \<and> set (mentioned t2) = cert_id ` set (take 3 (drop 3 cs))
                  \<and> inserted t2
                      = map cert_id
                          (filter (\<lambda>c. cert_recipientId c \<in> rcp_id ` set (recipients s)
                                       \<and> tid \<in> tpl_id ` set (templates s)) (take 3 (drop 3 cs)))
        \<and> started t3 = map cert_id (drop 6 cs)
        \<and> set (mentioned t3) = cert_id ` set (drop 6 cs)
                  \<and> inserted t3
                      = map cert_id
                          (filter (\<lambda>c. cert_recipientId c \<in> rcp_id ` set (recipients s)
                                       \<and> tid \<in> tpl_id ` set (templates s)) (drop 6 cs))"
    by blast
  have st1: "certificates (bulk_store_after ?r) = certificates s @ cs"
    by (simp add: st)
  have st2: "bulk_store_after (generateBulkCertificates env remote' recipientIds tid s)
      = bulk_store_after ?r"
    by (simp add: st)
  show ?thesis
    by (rule exI [of _ cs]) (intro conjI len st1 ids rcp b sizes cat st2 ne o)
qed

lemma newCertificate_fields:
  "cert_id (newCertificate env k r t) = env_nanoid env k"
  "cert_recipientId (newCertificate env k r t) = r"
  by (simp_all add: newCertificate_def Let_def)

lemma generateBulkCertificates_parts:
  "rounds (generateBulkCertificates env remote rids tid s)
     = map (processBatch env remote (recipients s) (find (\<lambda>t. tpl_id t = tid) (templates s)) tid)
         (batches_from 0
            (enumerate 0 (map (\<lambda>(k, r). newCertificate env k r tid) (enumerate 0 rids))))
   \<and> bulk_store_after (generateBulkCertificates env remote rids tid s)
     = s\<lparr>certificates := certificates s @ map (\<lambda>(k, r). newCertificate env k r tid) (enumerate 0 rids)\<rparr>"
  by (simp add: generateBulkCertificates_def Let_def)

lemma summary_generateBulkCertificates:
  "summary (generateBulkCertificates env remote rids tid s)
     = (if 0 < sum_list (map round_errors (rounds (generateBulkCertificates env remote rids tid s)))
        then [AlertSummary
                (sum_list (map round_saved (rounds (generateBulkCertificates env remote rids tid s))))
                (sum_list (map round_errors (rounds (generateBulkCertificates env remote rids tid s))))]
        else [])"
  by (simp only: generateBulkCertificates_def Let_def BulkResult.select_convs)

lemma example_rounds:
  "rounds (generateBulkCertificates env_x_test remote_down seven_recipients ''t1'' example_store)
     = [\<lparr>round_batch = [newCertificate env_x_test 0 ''r1'' ''t1'',
                         newCertificate env_x_test 1 ''r2'' ''t1'',
                         newCertificate env_x_test 2 ''r3'' ''t1''],
         round_requests = [DbInsert row_n0, MissingRecipientOrTemplate ''n1'',
                           MissingRecipientOrTemplate ''n2''],
         round_continuations = [[ErrorSavingCertificate ''n0''], [], []],
         round_saved = 0, round_errors = 1\<rparr>,
        \<lparr>round_batch = [newCertificate env_x_test 3 ''r4'' ''t1'',
                         newCertificate env_x_test 4 ''r5'' ''t1'',
                         newCertificate env_x_test 5 ''r6'' ''t1''],
         round_requests = [MissingRecipientOrTemplate ''n3'', MissingRecipientOrTemplate ''n4'',
                           MissingRecipientOrTemplate ''n5''],
         round_continuations = [[], [], []],
         round_saved = 0, round_errors = 0\<rparr>,
        \<lparr>round_batch = [newCertificate env_x_test 6 ''r7'' ''t1''],
         round_requests = [MissingRecipientOrTemplate ''n6''],
         round_continuations = [[]],
         round_saved = 0, round_errors = 0\<rparr>]"
proof -
  have e: "enumerate 0 (map (\<lambda>(k, r). newCertificate env_x_test k r ''t1'') (enumerate 0 seven_recipients))
      = [(0, newCertificate env_x_test 0 ''r1'' ''t1''), (1, newCertificate env_x_test 1 ''r2'' ''t1''),
         (2, newCertificate env_x_test 2 ''r3'' ''t1''), (3, newCertificate env_x_test 3 ''r4'' ''t1''),
         (4, newCertificate env_x_test 4 ''r5'' ''t1''), (5, newCertificate env_x_test 5 ''r6'' ''t1''),
         (6, newCertificate env_x_test 6 ''r7'' ''t1'')]"
    by (simp add: seven_recipients_def eval_nat_numeral)
  have b: "batches_from 0 [(0::nat, c0), (1, c1), (2, c2), (3, c3), (4, c4), (5, c5), (6, c6)]
      = [[(0, c0), (1, c1), (2, c2)], [(3, c3), (4, c4), (5, c5)], [(6, c6)]]"
    for c0 c1 c2 c3 c4 c5 c6 :: Certificate
    by (subst batches_from_seven) simp_all
  have f: "find (\<lambda>t. tpl_id t = ''t1'') (templates example_store) = Some template_t1"
    "recipients example_store = [recipient_ana]"
    by (simp_all add: example_store_def template_t1_def)
  have p0: "processCertificate env_x_test remote_down [recipient_ana] (Some template_t1) ''t1''
        (0, newCertificate env_x_test 0 ''r1'' ''t1'')
      = \<lparr>pl_request = [DbInsert row_n0], pl_continuation = [ErrorSavingCertificate ''n0''],
         pl_saved = 0, pl_errors = 1\<rparr>"
    by (simp add: processCertificate_def Let_def newCertificate_def recipient_ana_def
        remote_down_def row_n0_def env_x_test_def)
  have pk: "processCertificate env_x_test remote_down [recipient_ana] (Some template_t1) ''t1''
        (k, newCertificate env_x_test k (CHR ''r'' # c # []) ''t1'')
      = \<lparr>pl_request = [MissingRecipientOrTemplate (env_nanoid env_x_test k)],
         pl_continuation = [], pl_saved = 0, pl_errors = 0\<rparr>"
    if "c \<noteq> CHR ''1''" for k c
    using that
    by (simp add: processCertificate_def Let_def newCertificate_def recipient_ana_def)
  have n: "env_nanoid env_x_test 1 = ''n1''" "env_nanoid env_x_test 2 = ''n2''"
    "env_nanoid env_x_test 3 = ''n3''" "env_nanoid env_x_test 4 = ''n4''"
    "env_nanoid env_x_test 5 = ''n5''" "env_nanoid env_x_test 6 = ''n6''"
    "env_nanoid env_x_test (Suc 0) = ''n1''"
    by (simp_all add: env_x_test_def)
  show ?thesis
    unfolding conjunct1 [OF generateBulkCertificates_parts] e b f
    by (simp add: processBatch_def Let_def p0 pk n)
qed

lemma trace_down_possible:
  "summary (generateBulkCertificates env_x_test remote_down seven_recipients ''t1'' example_store)
     = [AlertSummary 0 1]
   \<and> bulk_traces (generateBulkCertificates env_x_test remote_down seven_recipients ''t1'' example_store)
     = {trace_down}"
proof -
  let ?r = "generateBulkCertificates env_x_test remote_down seven_recipients ''t1'' example_store"
  have s: "summary ?r = [AlertSummary 0 1]"
    unfolding summary_generateBulkCertificates example_rounds by simp
  have "bulk_traces ?r = {trace_down}"
    unfolding bulk_traces_def s example_rounds
    by (simp add: round_traces_def trace_down_def)
  with s show ?thesis by simp
qed

theorem generateBulkCertificates_seven_witness:
  "length seven_recipients = 7
   \<and> returned_ids (generateBulkCertificates env_x_test remote_down seven_recipients ''t1'' example_store)
       = [''n0'', ''n1'', ''n2'', ''n3'', ''n4'', ''n5'', ''n6'']
   \<and> map cert_id (certificates (bulk_store_after
         (generateBulkCertificates env_x_test remote_down seven_recipients ''t1'' example_store)))
       = [''c1'', ''c2'', ''n0'', ''n1'', ''n2'', ''n3'', ''n4'', ''n5'', ''n6'']
   \<and> map (\<lambda>r. length (round_batch r))
         (rounds (generateBulkCertificates env_x_test remote_down seven_recipients ''t1'' example_store))
       = [3, 3, 1]
   \<and> map (\<lambda>r. map cert_id (round_batch r))
         (rounds (generateBulkCertificates env_x_test remote_down seven_recipients ''t1'' example_store))
       = [[''n0'', ''n1'', ''n2''], [''n3'', ''n4'', ''n5''], [''n6'']]
   \<and> trace_down
       \<in> bulk_traces
           (generateBulkCertificates env_x_test remote_down seven_recipients ''t1'' example_store)
   \<and> (\<exists>t1 t2 t3.
         trace_down = t1 @ t2 @ t3 @ [AlertSummary 0 1]
         \<and> started t1 = [''n0'', ''n1'', ''n2''] \<and> inserted t1 = [''n0'']
         \<and> started t2 = [''n3'', ''n4'', ''n5''] \<and> inserted t2 = []
         \<and> started t3 = [''n6''] \<and> inserted t3 = [])"
proof -
  define r where "r = generateBulkCertificates env_x_test remote_down seven_recipients ''t1'' example_store"
  define cs0 where "cs0 =
    [newCertificate env_x_test 0 ''r1'' ''t1'', newCertificate env_x_test 1 ''r2'' ''t1'',
     newCertificate env_x_test 2 ''r3'' ''t1'', newCertificate env_x_test 3 ''r4'' ''t1'',
     newCertificate env_x_test 4 ''r5'' ''t1'', newCertificate env_x_test 5 ''r6'' ''t1'',
     newCertificate env_x_test 6 ''r7'' ''t1'']"
  have l: "length seven_recipients = 7"
    by (simp add: seven_recipients_def)
  have "\<exists>cs. certificates (bulk_store_after r) = certificates example_store @ cs
           \<and> returned_ids r = map cert_id cs
           \<and> map round_batch (rounds r) = [take 3 cs, take 3 (drop 3 cs), drop 6 cs]
           \<and> map (\<lambda>r. length (round_batch r)) (rounds r) = [3, 3, 1]
           \<and> (\<forall>t \<in> bulk_traces r. \<exists>t1 t2 t3.
                  t = t1 @ t2 @ t3 @ summary r
                  \<and> started t1 = map cert_id (take 3 cs)
                  \<and> set (mentioned t1) = cert_id ` set (take 3 cs)
                  \<and> inserted t1
                      = map cert_id
                          (filter (\<lambda>c. cert_recipientId c \<in> rcp_id ` set (recipients example_store)
                                       \<and> ''t1'' \<in> tpl_id ` set (templates example_store)) (take 3 cs))
                  \<and> started t2 = map cert_id (take 3 (drop 3 cs))
                  \<and> set (mentioned t2) = cert_id ` set (take 3 (drop 3 cs))
                  \<and> inserted t2
                      = map cert_id
                          (filter (\<lambda>c. cert_recipientId c \<in> rcp_id ` set (recipients example_store)
                                       \<and> ''t1'' \<in> tpl_id ` set (templates example_store)) (take 3 (drop 3 cs)))
                  \<and> started t3 = map cert_id (drop 6 cs)
                  \<and> set (mentioned t3) = cert_id ` set (drop 6 cs)
                  \<and> inserted t3
                      = map cert_id
                          (filter (\<lambda>c. cert_recipientId c \<in> rcp_id ` set (recipients example_store)
                                       \<and> ''t1'' \<in> tpl_id ` set (templates example_store)) (drop 6 cs)))"
    using generateBulkCertificates_seven
      [OF l, of env_x_test remote_down "''t1''" example_store remote_down]
    unfolding r_def by (elim exE conjE) (intro exI conjI)
  then obtain cs where cs:
    "certificates (bulk_store_after r) = certificates example_store @ cs"
    "returned_ids r = map cert_id cs"
    "map round_batch (rounds r) = [take 3 cs, take 3 (drop 3 cs), drop 6 cs]"
    "map (\<lambda>r. length (round_batch r)) (rounds r) = [3, 3, 1]"
    and order: "\<forall>t \<in> bulk_traces r. \<exists>t1 t2 t3.
                  t = t1 @ t2 @ t3 @ summary r
                  \<and> started t1 = map cert_id (take 3 cs)
                  \<and> set (mentioned t1) = cert_id ` set (take 3 cs)
                  \<and> inserted t1
                      = map cert_id
                          (filter (\<lambda>c. cert_recipientId c \<in> rcp_id ` set (recipients example_store)
                                       \<and> ''t1'' \<in> tpl_id ` set (templates example_store)) (take 3 cs))
                  \<and> started t2 = map cert_id (take 3 (drop 3 cs))
                  \<and> set (mentioned t2) = cert_id ` set (take 3 (drop 3 cs))
                  \<and> inserted t2
                      = map cert_id
                          (filter (\<lambda>c. cert_recipientId c \<in> rcp_id ` set (recipients example_store)
                                       \<and> ''t1'' \<in> tpl_id ` set (templates example_store)) (take 3 (drop 3 cs)))
                  \<and> started t3 = map cert_id (drop 6 cs)
                  \<and> set (mentioned t3) = cert_id ` set (drop 6 cs)
                  \<and> inserted t3
                      = map cert_id
                          (filter (\<lambda>c. cert_recipientId c \<in> rcp_id ` set (recipients example_store)
                                       \<and> ''t1'' \<in> tpl_id ` set (templates example_store)) (drop 6 cs))"
    by (elim exE conjE)
  have "bulk_store_after r = example_store\<lparr>certificates := certificates example_store @ cs0\<rparr>"
    unfolding r_def conjunct2 [OF generateBulkCertificates_parts]
    by (simp add: seven_recipients_def cs0_def eval_nat_numeral)
  with cs(1) have cs_eq: "cs = cs0" by simp
  have ids: "returned_ids r = [''n0'', ''n1'', ''n2'', ''n3'', ''n4'', ''n5'', ''n6'']"
    unfolding r_def returned_ids_generateBulkCertificates
    by (simp add: env_x_test_def seven_recipients_def)
  with cs(2) have m: "map cert_id cs = [''n0'', ''n1'', ''n2'', ''n3'', ''n4'', ''n5'', ''n6'']"
    by simp
  have c0: "map cert_id (certificates example_store) = [''c1'', ''c2'']"
    by (simp add: example_store_def certificate_c1_def certificate_c2_def)
  have st: "map cert_id (certificates (bulk_store_after r))
      = [''c1'', ''c2'', ''n0'', ''n1'', ''n2'', ''n3'', ''n4'', ''n5'', ''n6'']"
    unfolding cs(1) map_append c0 m by simp
  have "map (\<lambda>r. map cert_id (round_batch r)) (rounds r)
      = map (map cert_id) (map round_batch (rounds r))"
    by (simp add: comp_def)
  also have "\<dots> = [take 3 (map cert_id cs), take 3 (drop 3 (map cert_id cs)), drop 6 (map cert_id cs)]"
    unfolding cs(3) by (simp add: take_map drop_map)
  also have "\<dots> = [[''n0'', ''n1'', ''n2''], [''n3'', ''n4'', ''n5''], [''n6'']]"
    unfolding m by simp
  finally have b: "map (\<lambda>r. map cert_id (round_batch r)) (rounds r)
      = [[''n0'', ''n1'', ''n2''], [''n3'', ''n4'', ''n5''], [''n6'']]" .
  have mem: "trace_down \<in> bulk_traces r" and sm: "summary r = [AlertSummary 0 1]"
    using trace_down_possible by (simp_all add: r_def)
  have tk: "take 3 cs0 = [newCertificate env_x_test 0 ''r1'' ''t1'', newCertificate env_x_test 1 ''r2'' ''t1'',
       newCertificate env_x_test 2 ''r3'' ''t1'']"
    "take 3 (drop 3 cs0) = [newCertificate env_x_test 3 ''r4'' ''t1'', newCertificate env_x_test 4 ''r5'' ''t1'',
       newCertificate env_x_test 5 ''r6'' ''t1'']"
    "drop 6 cs0 = [newCertificate env_x_test 6 ''r7'' ''t1'']"
    by (simp_all add: cs0_def)
  from order mem have "\<exists>t1 t2 t3.
                  trace_down = t1 @ t2 @ t3 @ summary r
                  \<and> started t1 = map cert_id (take 3 cs)
                  \<and> set (mentioned t1) = cert_id ` set (take 3 cs)
                  \<and> inserted t1
                      = map cert_id
                          (filter (\<lambda>c. cert_recipientId c \<in> rcp_id ` set (recipients example_store)
                                       \<and> ''t1'' \<in> tpl_id ` set (templates example_store)) (take 3 cs))
                  \<and> started t2 = map cert_id (take 3 (drop 3 cs))
                  \<and> set (mentioned t2) = cert_id ` set (take 3 (drop 3 cs))
                  \<and> inserted t2
                      = map cert_id
                          (filter (\<lambda>c. cert_recipientId c \<in> rcp_id ` set (recipients example_store)
                                       \<and> ''t1'' \<in> tpl_id ` set (templates example_store)) (take 3 (drop 3 cs)))
                  \<and> started t3 = map cert_id (drop 6 cs)
                  \<and> set (mentioned t3) = cert_id ` set (drop 6 cs)
                  \<and> inserted t3
                      = map cert_id
                          (filter (\<lambda>c. cert_recipientId c \<in> rcp_id ` set (recipients example_store)
                                       \<and> ''t1'' \<in> tpl_id ` set (templates example_store)) (drop 6 cs))"
    by (rule bspec)
  then obtain t1 t2 t3 where t:
    "trace_down = t1 @ t2 @ t3 @ summary r"
    "started t1 = map cert_id (take 3 cs)"
    "inserted t1
       = map cert_id
           (filter (\<lambda>c. cert_recipientId c \<in> rcp_id ` set (recipients example_store)
                        \<and> ''t1'' \<in> tpl_id ` set (templates example_store)) (take 3 cs))"
    "started t2 = map cert_id (take 3 (drop 3 cs))"
    "inserted t2
       = map cert_id
           (filter (\<lambda>c. cert_recipientId c \<in> rcp_id ` set (recipients example_store)
                        \<and> ''t1'' \<in> tpl_id ` set (templates example_store)) (take 3 (drop 3 cs)))"
    "started t3 = map cert_id (drop 6 cs)"
    "inserted t3
       = map cert_id
           (filter (\<lambda>c. cert_recipientId c \<in> rcp_id ` set (recipients example_store)
                        \<and> ''t1'' \<in> tpl_id ` set (templates example_store)) (drop 6 cs))"
    by (elim exE conjE)
  have e1: "started t1 = [''n0'', ''n1'', ''n2'']"
    unfolding t(2) cs_eq tk by (simp add: newCertificate_fields env_x_test_def)
  have e2: "started t2 = [''n3'', ''n4'', ''n5'']"
    unfolding t(4) cs_eq tk by (simp add: newCertificate_fields env_x_test_def)
  have e3: "started t3 = [''n6'']"
    unfolding t(6) cs_eq tk by (simp add: newCertificate_fields env_x_test_def)
  have i1: "inserted t1 = [''n0'']"
    unfolding t(3) cs_eq tk
    by (simp add: newCertificate_fields example_store_def recipient_ana_def template_t1_def
        env_x_test_def)
  have i2: "inserted t2 = []"
    unfolding t(5) cs_eq tk
    by (simp add: newCertificate_fields example_store_def recipient_ana_def template_t1_def)
  have i3: "inserted t3 = []"
    unfolding t(7) cs_eq tk
    by (simp add: newCertificate_fields example_store_def recipient_ana_def template_t1_def)
  have t0: "trace_down = t1 @ t2 @ t3 @ [AlertSummary 0 1]"
    using t(1) unfolding sm .
  have tr: "\<exists>t1 t2 t3.
         trace_down = t1 @ t2 @ t3 @ [AlertSummary 0 1]
         \<and> started t1 = [''n0'', ''n1'', ''n2''] \<and> inserted t1 = [''n0'']
         \<and> started t2 = [''n3'', ''n4'', ''n5''] \<and> inserted t2 = []
         \<and> started t3 = [''n6''] \<and> inserted t3 = []"
    by (intro exI [of _ t1] exI [of _ t2] exI [of _ t3] conjI t0 e1 i1 e2 i2 e3 i3)
  from l ids st cs(4) b mem tr show ?thesis
    unfolding r_def by (intro conjI)
qed

section \<open>Upload with retries\<close>

text \<open>The three turns of the loop, the third being the last.\<close>

lemma upload_loop_third:
  "upload_loop env c 3 =
     (case upload_attempt env c 3 of
        (Inr url, evs) \<Rightarrow> (Inr url, evs)
      | (Inl err, evs) \<Rightarrow> (Inl (RetriesExhausted 3 err), evs))"
  by (subst upload_loop.simps) (simp add: MAX_RETRIES_def split: prod.splits sum.splits)

lemma upload_loop_second:
  "upload_loop env c 2 =
     (case upload_attempt env c 2 of
        (Inr url, evs) \<Rightarrow> (Inr url, evs)
      | (Inl err, evs) \<Rightarrow>
          (fst (upload_loop env c 3), evs @ [Sleep 2000] @ snd (upload_loop env c 3)))"
  by (subst upload_loop.simps)
    (simp add: MAX_RETRIES_def RETRY_DELAY_def Let_def split: prod.splits sum.splits)

lemma upload_loop_first:
  "upload_loop env c 1 =
     (case upload_attempt env c 1 of
        (Inr url, evs) \<Rightarrow> (Inr url, evs)
      | (Inl err, evs) \<Rightarrow>
          (fst (upload_loop env c 2), evs @ [Sleep 1000] @ snd (upload_loop env c 2)))"
  by (subst upload_loop.simps)
    (simp add: MAX_RETRIES_def RETRY_DELAY_def Let_def del: One_nat_def
      split: prod.splits sum.splits)

lemma upload_attempt_url:
  "fst (upload_attempt env c k) = Inr u \<Longrightarrow> u = publicUrl env c"
  by (auto simp: upload_attempt_def Let_def split: Exchange.splits if_splits)

lemma upload_attempt_env_failing_until:
  "upload_attempt (env_failing_until n) ''abc'' k =
     (if k < n
      then (Inl (UploadFailed ''Internal Server Error''),
            [Request POST ''https://p.supabase.co/storage/v1/object/certificates/abc.pdf''])
      else (Inr ''https://p.supabase.co/storage/v1/object/public/certificates/abc.pdf'',
            [Request POST ''https://p.supabase.co/storage/v1/object/certificates/abc.pdf'',
             Request PUT ''https://p.supabase.co/storage/v1/object/certificates/abc.pdf'']))"
  by (simp add: upload_attempt_def env_failing_until_def Let_def response_ok_def objectUrl_def
      publicUrl_def BUCKET_NAME_def)

text \<open>
  C7. In \<^verbatim>\<open>uploadCertificatePDF\<close>, an attempt whose POST is answered with status 409
  sends a PUT to the same object URL and, when that is answered with a 2xx status,
  succeeds. The first successful attempt among three ends the upload with its URL; an
  attempt that fails in any way is followed by a sleep of 1000 ms times its number and
  by the next attempt, which starts again with the POST; after the third failed attempt
  there is no sleep and the error is the terminal one, carrying the third failure. A
  successful attempt returns the public URL made of the base URL, the bucket
  \<^verbatim>\<open>certificates\<close> and \<^verbatim>\<open>{certificateCode}.pdf\<close>.
\<close>

theorem uploadCertificatePDF_retries:
  "(fetch env k POST (objectUrl env c) = Response 409 body
      \<and> fetch env k PUT (objectUrl env c) = Response st body' \<and> response_ok st
    \<longrightarrow> upload_attempt env c k
          = (Inr (publicUrl env c),
             [Request POST (objectUrl env c), Request PUT (objectUrl env c)]))
   \<and> (fst (upload_attempt env c 1) = Inr u
    \<longrightarrow> uploadCertificatePDF env c = (Inr u, snd (upload_attempt env c 1)))
   \<and> (fst (upload_attempt env c 1) = Inl e1 \<and> fst (upload_attempt env c 2) = Inr u
    \<longrightarrow> uploadCertificatePDF env c
          = (Inr u, snd (upload_attempt env c 1) @ [Sleep 1000] @ snd (upload_attempt env c 2)))
   \<and> (fst (upload_attempt env c 1) = Inl e1 \<and> fst (upload_attempt env c 2) = Inl e2
      \<and> fst (upload_attempt env c 3) = Inr u
    \<longrightarrow> uploadCertificatePDF env c
          = (Inr u, snd (upload_attempt env c 1) @ [Sleep 1000] @ snd (upload_attempt env c 2)
                    @ [Sleep 2000] @ snd (upload_attempt env c 3)))
   \<and> (fst (upload_attempt env c 1) = Inl e1 \<and> fst (upload_attempt env c 2) = Inl e2
      \<and> fst (upload_attempt env c 3) = Inl e3
    \<longrightarrow> uploadCertificatePDF env c
          = (Inl (RetriesExhausted 3 e3),
             snd (upload_attempt env c 1) @ [Sleep 1000] @ snd (upload_attempt env c 2)
             @ [Sleep 2000] @ snd (upload_attempt env c 3)))
   \<and> (fst (upload_attempt env c k) = Inr u
    \<longrightarrow> u = supabaseUrl env @ ''/storage/v1/object/public/certificates/'' @ c @ ''.pdf'')
   \<and> (\<exists>more. snd (upload_attempt env c k) = Request POST (objectUrl env c) # more)
   \<and> objectUrl env c = supabaseUrl env @ ''/storage/v1/object/certificates/'' @ c @ ''.pdf''"
proof (intro conjI impI)
  assume "fetch env k POST (objectUrl env c) = Response 409 body
      \<and> fetch env k PUT (objectUrl env c) = Response st body' \<and> response_ok st"
  then show "upload_attempt env c k
          = (Inr (publicUrl env c),
             [Request POST (objectUrl env c), Request PUT (objectUrl env c)])"
    by (simp add: upload_attempt_def Let_def response_ok_def)
next
  assume "fst (upload_attempt env c 1) = Inr u"
  then show "uploadCertificatePDF env c = (Inr u, snd (upload_attempt env c 1))"
    by (auto simp: uploadCertificatePDF_def upload_loop_first simp del: One_nat_def
        split: prod.splits sum.splits)
next
  assume "fst (upload_attempt env c 1) = Inl e1 \<and> fst (upload_attempt env c 2) = Inr u"
  then show "uploadCertificatePDF env c
          = (Inr u, snd (upload_attempt env c 1) @ [Sleep 1000] @ snd (upload_attempt env c 2))"
    by (auto simp: uploadCertificatePDF_def upload_loop_first upload_loop_second
        simp del: One_nat_def split: prod.splits sum.splits)
next
  assume "fst (upload_attempt env c 1) = Inl e1 \<and> fst (upload_attempt env c 2) = Inl e2
      \<and> fst (upload_attempt env c 3) = Inr u"
  then show "uploadCertificatePDF env c
          = (Inr u, snd (upload_attempt env c 1) @ [Sleep 1000] @ snd (upload_attempt env c 2)
                    @ [Sleep 2000] @ snd (upload_attempt env c 3))"
    by (auto simp: uploadCertificatePDF_def upload_loop_first upload_loop_second upload_loop_third
        simp del: One_nat_def split: prod.splits sum.splits)
next
  assume "fst (upload_attempt env c 1) = Inl e1 \<and> fst (upload_attempt env c 2) = Inl e2
      \<and> fst (upload_attempt env c 3) = Inl e3"
  then show "uploadCertificatePDF env c
          = (Inl (RetriesExhausted 3 e3),
             snd (upload_attempt env c 1) @ [Sleep 1000] @ snd (upload_attempt env c 2)
             @ [Sleep 2000] @ snd (upload_attempt env c 3))"
    by (auto simp: uploadCertificatePDF_def upload_loop_first upload_loop_second upload_loop_third
        simp del: One_nat_def split: prod.splits sum.splits)
next
  assume "fst (upload_attempt env c k) = Inr u"
  then have "u = publicUrl env c" by (rule upload_attempt_url)
  then show "u = supabaseUrl env @ ''/storage/v1/object/public/certificates/'' @ c @ ''.pdf''"
    by (simp add: publicUrl_def BUCKET_NAME_def)
next
  show "\<exists>more. snd (upload_attempt env c k) = Request POST (objectUrl env c) # more"
    by (simp add: upload_attempt_def Let_def split: Exchange.splits)
next
  show "objectUrl env c = supabaseUrl env @ ''/storage/v1/object/certificates/'' @ c @ ''.pdf''"
    by (simp add: objectUrl_def BUCKET_NAME_def)
qed

theorem uploadCertificatePDF_retries_witness:
  "uploadCertificatePDF (env_failing_until 1) ''abc''
     = (Inr ''https://p.supabase.co/storage/v1/object/public/certificates/abc.pdf'',
        [Request POST ''https://p.supabase.co/storage/v1/object/certificates/abc.pdf'',
         Request PUT ''https://p.supabase.co/storage/v1/object/certificates/abc.pdf''])
   \<and> uploadCertificatePDF (env_failing_until 2) ''abc''
     = (Inr ''https://p.supabase.co/storage/v1/object/public/certificates/abc.pdf'',
        [Request POST ''https://p.supabase.co/storage/v1/object/certificates/abc.pdf'',
         Sleep 1000,
         Request POST ''https://p.supabase.co/storage/v1/object/certificates/abc.pdf'',
         Request PUT ''https://p.supabase.co/storage/v1/object/certificates/abc.pdf''])
   \<and> uploadCertificatePDF (env_failing_until 3) ''abc''
     = (Inr ''https://p.supabase.co/storage/v1/object/public/certificates/abc.pdf'',
        [Request POST ''https://p.supabase.co/storage/v1/object/certificates/abc.pdf'',
         Sleep 1000,
         Request POST ''https://p.supabase.co/storage/v1/object/certificates/abc.pdf'',
         Sleep 2000,
         Request POST ''https://p.supabase.co/storage/v1/object/certificates/abc.pdf'',
         Request PUT ''https://p.supabase.co/storage/v1/object/certificates/abc.pdf''])
   \<and> uploadCertificatePDF (env_failing_until 4) ''abc''
     = (Inl (RetriesExhausted 3 (UploadFailed ''Internal Server Error'')),
        [Request POST ''https://p.supabase.co/storage/v1/object/certificates/abc.pdf'',
         Sleep 1000,
         Request POST ''https://p.supabase.co/storage/v1/object/certificates/abc.pdf'',
         Sleep 2000,
         Request POST ''https://p.supabase.co/storage/v1/object/certificates/abc.pdf''])"
  using uploadCertificatePDF_retries [of "env_failing_until 1" 1 "''abc''" "''Duplicate''" 200 "''{}''"
      "''https://p.supabase.co/storage/v1/object/public/certificates/abc.pdf''"]
    uploadCertificatePDF_retries [of "env_failing_until 2" 2 "''abc''" "''Duplicate''" 200 "''{}''"
      "''https://p.supabase.co/storage/v1/object/public/certificates/abc.pdf''"
      "UploadFailed ''Internal Server Error''"]
    uploadCertificatePDF_retries [of "env_failing_until 3" 3 "''abc''" "''Duplicate''" 200 "''{}''"
      "''https://p.supabase.co/storage/v1/object/public/certificates/abc.pdf''"
      "UploadFailed ''Internal Server Error''" "UploadFailed ''Internal Server Error''"]
    uploadCertificatePDF_retries [of "env_failing_until 4" 3 "''abc''" "''Duplicate''" 200 "''{}''"
      "''https://p.supabase.co/storage/v1/object/public/certificates/abc.pdf''"
      "UploadFailed ''Internal Server Error''" "UploadFailed ''Internal Server Error''"
      "UploadFailed ''Internal Server Error''"]
  by (simp add: upload_attempt_env_failing_until del: One_nat_def)

section \<open>Importing\<close>

text \<open>
  C9, as the code has it. An input that \<^verbatim>\<open>JSON.parse\<close> rejects leaves the whole store
  unchanged, and so does an input that parses to \<^verbatim>\<open>null\<close> (reading a property of
  \<^verbatim>\<open>null\<close> throws inside the same \<^verbatim>\<open>try\<close>). For an input that parses to any other value,
  each of the four containers whose key the parsed value does not have is replaced by
  the empty array.
\<close>

theorem importData_parse_error_or_missing_keys:
  "(parse jsonData = None \<longrightarrow> importData parse jsonData s = s)
   \<and> (parse jsonData = Some JNull \<longrightarrow> importData parse jsonData s = s)
   \<and> (parse jsonData = Some data \<and> data \<noteq> JNull \<longrightarrow>
        (js_prop data ''templates'' = None
           \<longrightarrow> js_templates (importData parse jsonData s) = JArr [])
      \<and> (js_prop data ''recipients'' = None
           \<longrightarrow> js_recipients (importData parse jsonData s) = JArr [])
      \<and> (js_prop data ''certificates'' = None
           \<longrightarrow> js_certificates (importData parse jsonData s) = JArr [])
      \<and> (js_prop data ''collections'' = None
           \<longrightarrow> js_collections (importData parse jsonData s) = JArr []))"
  by (simp add: importData_def or_empty_def)

theorem importData_parse_error_or_missing_keys_witness:
  "parse_of example_store ''{'' = None
   \<and> importData (parse_of example_store) ''{'' (js_store example_store) = js_store example_store
   \<and> parse_of example_store ''null'' = Some JNull
   \<and> importData (parse_of example_store) ''null'' (js_store example_store) = js_store example_store
   \<and> parse_of example_store ''{}'' = Some (JObj [])
   \<and> JObj [] \<noteq> JNull
   \<and> js_prop (JObj []) ''templates'' = None
   \<and> js_prop (JObj []) ''recipients'' = None
   \<and> js_prop (JObj []) ''certificates'' = None
   \<and> js_prop (JObj []) ''collections'' = None
   \<and> js_templates (importData (parse_of example_store) ''{}'' (js_store example_store)) = JArr []
   \<and> js_recipients (importData (parse_of example_store) ''{}'' (js_store example_store)) = JArr []
   \<and> js_certificates (importData (parse_of example_store) ''{}'' (js_store example_store)) = JArr []
   \<and> js_collections (importData (parse_of example_store) ''{}'' (js_store example_store)) = JArr []"
  using importData_parse_error_or_missing_keys
      [of "parse_of example_store" "''{''" "js_store example_store"]
    importData_parse_error_or_missing_keys
      [of "parse_of example_store" "''null''" "js_store example_store"]
    importData_parse_error_or_missing_keys
      [of "parse_of example_store" "''{}''" "js_store example_store" "JObj []"]
  by (simp add: parse_of_def js_prop_def)

text \<open>
  C9 as stated fails: the text \<^verbatim>\<open>null\<close> parses successfully, the parsed value has none of
  the four keys, and the templates of the store are kept, not replaced by an empty
  container.
\<close>

theorem importData_null_counterexample:
  "parse_of example_store ''null'' = Some JNull
   \<and> js_prop JNull ''templates'' = None
   \<and> js_templates (importData (parse_of example_store) ''null'' (js_store example_store))
       = JArr [Template_json template_t1]
   \<and> js_templates (importData (parse_of example_store) ''null'' (js_store example_store))
       \<noteq> JArr []"
  by (simp add: parse_of_def js_prop_def importData_def js_store_def example_store_def)

section \<open>Export followed by import\<close>

text \<open>Values that \<^verbatim>\<open>JSON.stringify\<close> writes as they are.\<close>

lemma first_template_id_js_store:
  "first_template_id (export_object (js_store s)) =
     (case templates s of [] \<Rightarrow> JNull
      | t # _ \<Rightarrow> if tpl_id t = [] then JNull else JStr (tpl_id t))"
  by (simp add: first_template_id_def export_object_def js_store_def js_prop_def js_first_def
      Template_json_def truthy_def split: list.splits)

lemma stringified_optional_JStr:
  "map (map_prod id stringified) (optional key (map_option JStr v)) = optional key (map_option JStr v)"
  by (cases v) (simp_all add: optional_def)

lemma stringified_Certificate_json: "stringified (Certificate_json c) = Certificate_json c"
  by (simp add: Certificate_json_def)

lemma stringified_Recipient_json: "stringified (Recipient_json r) = Recipient_json r"
proof -
  have "map (map_prod id stringified) (map (\<lambda>(k, v). (k, JStr v)) cf) = map (\<lambda>(k, v). (k, JStr v)) cf"
    for cf :: "(string \<times> string) list"
    by (induction cf) auto
  then have "map (map_prod id stringified)
        (optional ''customFields''
           (map_option (\<lambda>cf. JObj (map (\<lambda>(k, v). (k, JStr v)) cf)) (rcp_customFields r)))
      = optional ''customFields''
           (map_option (\<lambda>cf. JObj (map (\<lambda>(k, v). (k, JStr v)) cf)) (rcp_customFields r))"
    by (cases "rcp_customFields r") (simp_all add: optional_def)
  then show ?thesis
    by (simp add: Recipient_json_def stringified_optional_JStr)
qed

lemma stringified_Collection_json: "stringified (Collection_json c) = Collection_json c"
  by (simp add: Collection_json_def stringified_optional_JStr stringified_Certificate_json
      map_idI)

lemma stringified_JNum: "finite_number n \<Longrightarrow> stringified (JNum n) = JNum n"
  by (cases n) (simp_all add: finite_number_def)

lemma stringified_optional_JNum:
  "(case v of None \<Rightarrow> True | Some n \<Rightarrow> finite_number n)
   \<Longrightarrow> map (map_prod id stringified) (optional key (map_option JNum v))
       = optional key (map_option JNum v)"
  by (cases v) (simp_all add: optional_def stringified_JNum del: stringified.simps(3))

lemma stringified_FieldType_json: "stringified (FieldType_json t) = FieldType_json t"
  by (cases t) (simp_all add: FieldType_json_def)

lemma stringified_Field_json: "finite_field f \<Longrightarrow> stringified (Field_json f) = Field_json f"
  by (simp add: Field_json_def finite_field_def stringified_JNum stringified_optional_JNum
      stringified_optional_JStr stringified_FieldType_json del: stringified.simps(3))

lemma stringified_Template_json:
  "list_all finite_field (tpl_fields t) \<Longrightarrow> stringified (Template_json t) = Template_json t"
  by (simp add: Template_json_def list_all_iff stringified_Field_json map_idI)

lemma stringified_export_object:
  "finite_numbers s \<Longrightarrow> stringified (export_object (js_store s)) = export_object (js_store s)"
  by (simp add: export_object_def js_store_def finite_numbers_def list_all_iff
      stringified_Template_json stringified_Recipient_json stringified_Certificate_json
      stringified_Collection_json map_idI)

text \<open>
  C5, as the code has it. For every store whose template fields hold only finite
  numbers, importing the export of the store into an empty store reproduces the four
  containers exactly. The current template is not taken from the exported store: it is
  the identifier of the first imported template when that identifier is a non-empty
  string, and \<^verbatim>\<open>null\<close> otherwise (there is no template, or its identifier is the empty
  string, which \<^verbatim>\<open>|| null\<close> takes for missing).
\<close>

theorem export_import_roundtrip:
  assumes "finite_numbers s"
  shows "js_templates
           (importData JSON_parse (exportData JSON_stringify (js_store s)) (js_store (clearAllData s0)))
           = js_templates (js_store s)
         \<and> js_recipients
           (importData JSON_parse (exportData JSON_stringify (js_store s)) (js_store (clearAllData s0)))
           = js_recipients (js_store s)
         \<and> js_certificates
           (importData JSON_parse (exportData JSON_stringify (js_store s)) (js_store (clearAllData s0)))
           = js_certificates (js_store s)
         \<and> js_collections
           (importData JSON_parse (exportData JSON_stringify (js_store s)) (js_store (clearAllData s0)))
           = js_collections (js_store s)
         \<and> js_currentTemplateId
           (importData JSON_parse (exportData JSON_stringify (js_store s)) (js_store (clearAllData s0)))
           = (case templates s of [] \<Rightarrow> JNull
              | t # _ \<Rightarrow> if tpl_id t = [] then JNull else JStr (tpl_id t))"
proof -
  have p: "JSON_parse (exportData JSON_stringify (js_store s)) = Some (export_object (js_store s))"
    using stringified_export_object [OF assms]
    by (simp add: exportData_def JSON_stringify_def JSON_parse_def)
  have d: "export_object (js_store s) \<noteq> JNull"
    by (simp add: export_object_def)
  have i: "importData JSON_parse (exportData JSON_stringify (js_store s)) (js_store (clearAllData s0))
      = \<lparr>js_templates = or_empty (js_prop (export_object (js_store s)) ''templates''),
         js_recipients = or_empty (js_prop (export_object (js_store s)) ''recipients''),
         js_certificates = or_empty (js_prop (export_object (js_store s)) ''certificates''),
         js_collections = or_empty (js_prop (export_object (js_store s)) ''collections''),
         js_currentTemplateId = first_template_id (export_object (js_store s))\<rparr>"
    using p d by (simp add: importData_def)
  show ?thesis
    unfolding i first_template_id_js_store
    by (simp add: export_object_def js_prop_def or_empty_def js_store_def truthy_def)
qed

theorem export_import_roundtrip_witness:
  "finite_numbers store_datos
   \<and> importData JSON_parse (exportData JSON_stringify (js_store store_datos))
        (js_store (clearAllData store_datos))
     = js_store store_datos"
proof -
  have h: "finite_numbers store_datos"
    by (simp add: finite_numbers_def store_datos_def template_datos_def field_recipient_def
        finite_field_def finite_number_def)
  have c: "js_currentTemplateId (js_store store_datos) = JStr ''datos-abiertos''"
    by (simp add: js_store_def store_datos_def)
  have t: "templates store_datos = [template_datos]" "tpl_id template_datos = ''datos-abiertos''"
    by (simp_all add: store_datos_def template_datos_def)
  show ?thesis
    using h c export_import_roundtrip [OF h, of store_datos]
    by (simp add: t JsStore.equality)
qed

text \<open>
  C5 as stated fails twice on one store. Its first template has a field whose
  horizontal position is \<^verbatim>\<open>NaN\<close>, which the export writes as \<^verbatim>\<open>null\<close>: the imported
  templates are not the original ones. The same template has the identifier \<^verbatim>\<open>""\<close>: the
  current template is \<^verbatim>\<open>null\<close>, not the identifier of the first imported template.
\<close>

theorem export_import_broken_first_counterexample:
  "templates store_broken_first \<noteq> []
   \<and> js_templates (importData JSON_parse (exportData JSON_stringify (js_store store_broken_first))
        (js_store (clearAllData store_broken_first)))
     \<noteq> js_templates (js_store store_broken_first)
   \<and> js_templates (importData JSON_parse (exportData JSON_stringify (js_store store_broken_first))
        (js_store (clearAllData store_broken_first)))
     = JArr [JObj [(''id'', JStr []), (''name'', JStr ''Otro''),
                   (''imageUrl'', JStr ''/assets/otro.jpg''),
                   (''fields'',
                    JArr [JObj [(''id'', JStr ''f1''), (''name'', JStr ''recipient''),
                                (''type'', JStr ''text''), (''x'', JNull),
                                (''y'', JNum (Finite 40)), (''fontSize'', JNum (Finite 28)),
                                (''fontFamily'', JStr ''Sora, sans-serif''),
                                (''color'', JStr ''#1a365d'')]])],
             Template_json template_t1]
   \<and> js_currentTemplateId (importData JSON_parse
        (exportData JSON_stringify (js_store store_broken_first))
        (js_store (clearAllData store_broken_first)))
     = JNull
   \<and> js_currentTemplateId (importData JSON_parse
        (exportData JSON_stringify (js_store store_broken_first))
        (js_store (clearAllData store_broken_first)))
     \<noteq> JStr (tpl_id (hd (templates store_broken_first)))"
  by (simp add: JSON_parse_def JSON_stringify_def exportData_def importData_def export_object_def
      js_store_def store_broken_first_def first_template_id_def js_prop_def js_first_def
      Template_json_def template_broken_def template_t1_def field_nan_def field_recipient_def
      Field_json_def FieldType_json_def optional_def truthy_def or_empty_def)

end
